theory Spec2Isabelle
  imports Complex_Main
begin

section \<open>JavaScript values\<close>

text \<open>
  The callback handler receives duck-typed payloads.  They are modelled by a datatype
  of JavaScript values: \<open>undefined\<close>, \<open>null\<close>, booleans, numbers, strings, byte buffers
  (Node \<open>Buffer\<close>), arrays and plain objects.  An object is its list of own enumerable
  properties in insertion order.
\<close>

datatype jsnum = Fin rat | NaN | PosInf | NegInf

datatype jsval =
    JUndefined
  | JNull
  | JBool bool
  | JNum jsnum
  | JStr string
  | JBuf "nat list"
  | JArr "jsval list"
  | JObj "(string \<times> jsval) list"

type_synonym jsobj = "(string \<times> jsval) list"

text \<open>Truthiness, as tested by \<open>if (v)\<close>, \<open>a && b\<close> and \<open>a || b\<close>.\<close>

fun truthy :: "jsval \<Rightarrow> bool" where
  "truthy JUndefined = False"
| "truthy JNull = False"
| "truthy (JBool b) = b"
| "truthy (JNum (Fin q)) = (q \<noteq> 0)"
| "truthy (JNum NaN) = False"
| "truthy (JNum PosInf) = True"
| "truthy (JNum NegInf) = True"
| "truthy (JStr s) = (s \<noteq> [])"
| "truthy (JBuf b) = True"
| "truthy (JArr xs) = True"
| "truthy (JObj kvs) = True"

text \<open>\<open>a || b\<close>\<close>

definition js_or :: "jsval \<Rightarrow> jsval \<Rightarrow> jsval" where
  "js_or a b = (if truthy a then a else b)"

text \<open>
  Property read \<open>o.k\<close> on an object given by its property list, and \<open>v.k\<close> on an arbitrary
  value.  The handler reads a property of a value only after testing the value for
  truthiness (so never of \<open>null\<close> or \<open>undefined\<close>, the one exception being the error
  object, see \<open>handleError\<close>), and none of the property names it reads is defined on
  a boolean, number, string, buffer or array, where the read therefore yields \<open>undefined\<close>.
\<close>

definition obj_get :: "jsobj \<Rightarrow> string \<Rightarrow> jsval" where
  "obj_get kvs k = (case map_of kvs k of None \<Rightarrow> JUndefined | Some v \<Rightarrow> v)"

fun js_get :: "jsval \<Rightarrow> string \<Rightarrow> jsval" where
  "js_get (JObj kvs) k = obj_get kvs k"
| "js_get v k = JUndefined"

text \<open>\<open>k in v\<close>, for a truthy value \<open>v\<close> whose \<open>typeof\<close> is \<open>'object'\<close>.\<close>

fun js_in :: "string \<Rightarrow> jsval \<Rightarrow> bool" where
  "js_in k (JObj kvs) = (k \<in> fst ` set kvs)"
| "js_in k v = False"

fun typeof_object :: "jsval \<Rightarrow> bool" where
  "typeof_object JNull = True"
| "typeof_object (JBuf b) = True"
| "typeof_object (JArr xs) = True"
| "typeof_object (JObj kvs) = True"
| "typeof_object v = False"

text \<open>
  Property write \<open>o[k] = v\<close>: an existing key keeps its position, a new key goes last.
  JavaScript enumerates integer-like keys (\<open>'0'\<close>, \<open>'17'\<close>) before all others, in
  ascending order; that reordering is not modelled, so for objects with such keys the
  order of the list can differ from the enumeration order, the keys and values not.
\<close>

fun obj_set :: "jsobj \<Rightarrow> string \<Rightarrow> jsval \<Rightarrow> jsobj" where
  "obj_set [] k v = [(k, v)]"
| "obj_set ((k', v') # kvs) k v = (if k' = k then (k, v) # kvs else (k', v') # obj_set kvs k v)"

text \<open>Object spread \<open>{ ...a, ...b }\<close>.\<close>

definition obj_spread :: "jsobj \<Rightarrow> jsobj \<Rightarrow> jsobj" where
  "obj_spread a b = foldl (\<lambda>acc (k, v). obj_set acc k v) a b"

text \<open>
  The active execution context and the JavaScript runtime, as far as the handler reads
  them: whether the value stored under the suppress-instrumentation key is truthy, the
  object stored under the association-properties key (empty when there is none), and the
  text that \<open>String\<close> gives for a number and for a buffer.
\<close>

record env =
  suppress :: bool
  association_properties :: jsobj
  numToString :: "jsnum \<Rightarrow> string"
  bufToString :: "nat list \<Rightarrow> string"

fun join_comma :: "string list \<Rightarrow> string" where
  "join_comma [] = []"
| "join_comma [x] = x"
| "join_comma (x # y # ys) = x @ '','' @ join_comma (y # ys)"

text \<open>
  \<open>String(v)\<close>.  An array is joined with commas, \<open>null\<close> and \<open>undefined\<close> elements giving
  the empty text; a plain object gives \<open>[object Object]\<close>.
\<close>

fun js_String :: "env \<Rightarrow> jsval \<Rightarrow> string" where
  "js_String e JUndefined = ''undefined''"
| "js_String e JNull = ''null''"
| "js_String e (JBool b) = (if b then ''true'' else ''false'')"
| "js_String e (JNum n) = numToString e n"
| "js_String e (JStr s) = s"
| "js_String e (JBuf b) = bufToString e b"
| "js_String e (JArr xs) =
     join_comma (map (\<lambda>x. if x = JNull \<or> x = JUndefined then [] else js_String e x) xs)"
| "js_String e (JObj kvs) = ''[object Object]''"

section \<open>Spans and the handler state\<close>

text \<open>
  A span of the tracing API is modelled by what the handler does to it: the name, kind
  and parent context it was started with, the attributes set, the status set, the
  exceptions recorded, the number of calls of \<open>end()\<close>, and the sequence of all calls
  made on it, in order.  A span handle is the index of the span in the list of all spans
  started by the tracer.
\<close>

datatype span_call =
    SetAttribute string jsval
  | SetStatusError jsval
  | RecordException jsval
  | End

datatype span_kind = INTERNAL | CLIENT

datatype span_status = UNSET | ERROR jsval

record otel_span =
  sp_name :: string
  sp_kind :: span_kind
  sp_parent :: "nat option"
  sp_attributes :: "string \<rightharpoonup> jsval"
  sp_status :: span_status
  sp_exceptions :: "jsval list"
  sp_end_calls :: nat
  sp_calls :: "span_call list"

text \<open>
  \<open>class SpanHolder\<close>.  The field \<open>startTime\<close> (\<open>Date.now()\<close>) is never read and is left out.
\<close>

record SpanHolder =
  hspan :: nat
  children :: "string list"
  requestModel :: jsval

text \<open>
  The state of an \<open>OpenTelemetryCallbackHandler\<close>: the spans of its tracer, its
  \<open>spanMapping\<close>, and the association-property objects it has installed with
  \<open>context.with\<close> (each for the duration of an empty callback).
\<close>

record handler_state =
  spans :: "otel_span list"
  spanMapping :: "string \<rightharpoonup> SpanHolder"
  assoc_log :: "jsobj list"

definition init_state :: handler_state where
  "init_state = \<lparr>spans = [], spanMapping = Map.empty, assoc_log = []\<rparr>"

definition upd_span :: "nat \<Rightarrow> (otel_span \<Rightarrow> otel_span) \<Rightarrow> handler_state \<Rightarrow> handler_state" where
  "upd_span i f s = s\<lparr>spans := (spans s)[i := f (spans s ! i)]\<rparr>"

text \<open>\<open>span.setAttribute(k, v)\<close>\<close>

definition span_setAttribute :: "nat \<Rightarrow> string \<Rightarrow> jsval \<Rightarrow> handler_state \<Rightarrow> handler_state" where
  "span_setAttribute i k v =
     upd_span i (\<lambda>sp. sp\<lparr>sp_attributes := (sp_attributes sp)(k \<mapsto> v),
                         sp_calls := sp_calls sp @ [SetAttribute k v]\<rparr>)"

text \<open>\<open>span.setStatus({ code: SpanStatusCode.ERROR, message: m })\<close>\<close>

definition span_setStatus_error :: "nat \<Rightarrow> jsval \<Rightarrow> handler_state \<Rightarrow> handler_state" where
  "span_setStatus_error i m =
     upd_span i (\<lambda>sp. sp\<lparr>sp_status := ERROR m, sp_calls := sp_calls sp @ [SetStatusError m]\<rparr>)"

text \<open>\<open>span.recordException(err)\<close>\<close>

definition span_recordException :: "nat \<Rightarrow> jsval \<Rightarrow> handler_state \<Rightarrow> handler_state" where
  "span_recordException i err =
     upd_span i (\<lambda>sp. sp\<lparr>sp_exceptions := sp_exceptions sp @ [err],
                         sp_calls := sp_calls sp @ [RecordException err]\<rparr>)"

text \<open>\<open>span.end()\<close>\<close>

definition span_end :: "nat \<Rightarrow> handler_state \<Rightarrow> handler_state" where
  "span_end i =
     upd_span i (\<lambda>sp. sp\<lparr>sp_end_calls := Suc (sp_end_calls sp), sp_calls := sp_calls sp @ [End]\<rparr>)"

text \<open>
  \<open>tracer.startSpan(name, { kind }, ctx)\<close>, where \<open>ctx\<close> is the active context with the
  parent span set in it, or is not passed at all (\<open>None\<close>).
\<close>

definition tracer_startSpan ::
  "string \<Rightarrow> span_kind \<Rightarrow> nat option \<Rightarrow> handler_state \<Rightarrow> nat \<times> handler_state" where
  "tracer_startSpan nm k parent s =
     (length (spans s),
      s\<lparr>spans := spans s @
        [\<lparr>sp_name = nm, sp_kind = k, sp_parent = parent, sp_attributes = Map.empty,
          sp_status = UNSET, sp_exceptions = [], sp_end_calls = 0,
          sp_calls = []\<rparr>]\<rparr>)"

section \<open>Attribute names\<close>

text \<open>\<open>GenAIOperationValues\<close> and \<open>Span_Attributes\<close> of \<open>span-attributes.ts\<close>.\<close>

abbreviation "CHAT \<equiv> ''chat''"
abbreviation "GEN_AI_REQUEST_MODEL \<equiv> ''gen_ai.request.model''"
abbreviation "GEN_AI_RESPONSE_MODEL \<equiv> ''gen_ai.response.model''"
abbreviation "GEN_AI_REQUEST_MAX_TOKENS \<equiv> ''gen_ai.request.max_tokens''"
abbreviation "GEN_AI_REQUEST_TEMPERATURE \<equiv> ''gen_ai.request.temperature''"
abbreviation "GEN_AI_REQUEST_TOP_P \<equiv> ''gen_ai.request.top_p''"
abbreviation "GEN_AI_SYSTEM \<equiv> ''gen_ai.system''"
abbreviation "GEN_AI_OPERATION_NAME \<equiv> ''gen_ai.operation.name''"
abbreviation "GEN_AI_RESPONSE_ID \<equiv> ''gen_ai.response.id''"
abbreviation "GEN_AI_USAGE_INPUT_TOKENS \<equiv> ''gen_ai.usage.input_tokens''"
abbreviation "GEN_AI_USAGE_OUTPUT_TOKENS \<equiv> ''gen_ai.usage.output_tokens''"
abbreviation "GEN_AI_AGENT_NAME \<equiv> ''gen_ai.agent.name''"
abbreviation "GEN_AI_TOOL_CALL_ID \<equiv> ''gen_ai.tool.call_id''"
abbreviation "GEN_AI_TOOL_NAME \<equiv> ''gen_ai.tool.name''"

section \<open>The helpers of the callback handler\<close>

text \<open>
  The source's names start with an underscore (\<open>_setSpanAttribute\<close>, \<open>_endSpan\<close>, ...);
  the underscore is dropped here.
\<close>

text \<open>\<open>_setSpanAttribute(span, name, value)\<close>\<close>

definition setSpanAttribute :: "nat \<Rightarrow> string \<Rightarrow> jsval \<Rightarrow> handler_state \<Rightarrow> handler_state" where
  "setSpanAttribute sp nm v s =
     (if v \<noteq> JUndefined \<and> v \<noteq> JNull \<and> v \<noteq> JStr [] then span_setAttribute sp nm v s else s)"

text \<open>
  The loop of \<open>_setRequestParams\<close> over the model tags: \<open>Some v\<close> when the loop leaves
  through \<open>break\<close> with \<open>v\<close> assigned to \<open>spanHolder.requestModel\<close> and \<open>model\<close>,
  \<open>None\<close> when no tag is found.
\<close>

fun findModel :: "string list \<Rightarrow> jsobj \<Rightarrow> jsval option" where
  "findModel [] kwargs = None"
| "findModel (modelTag # tags) kwargs =
     (if obj_get kwargs modelTag \<noteq> JUndefined then Some (obj_get kwargs modelTag)
      else if js_get (js_or (obj_get kwargs ''invocation_params'') (JObj [])) modelTag \<noteq> JUndefined
        then Some (js_get (obj_get kwargs ''invocation_params'') modelTag)
      else findModel tags kwargs)"

text \<open>
  \<open>_setRequestParams(span, kwargs, spanHolder)\<close>.  Both call sites pass
  \<open>this.spanMapping.get(runId)!\<close> as the holder, right after \<open>_createSpan\<close> has stored
  it; the model takes the \<open>runId\<close> and updates the holder in the mapping.
\<close>

definition requestParams_of :: "jsobj \<Rightarrow> jsval" where
  "requestParams_of kwargs =
     (if truthy (obj_get kwargs ''invocation_params'')
      then js_or (js_get (obj_get kwargs ''invocation_params'') ''params'')
                 (obj_get kwargs ''invocation_params'')
      else JObj kwargs)"

definition setRequestParams :: "nat \<Rightarrow> jsobj \<Rightarrow> string \<Rightarrow> handler_state \<Rightarrow> handler_state" where
  "setRequestParams sp kwargs runId s =
     (let found = findModel [''model_id'', ''base_model_id''] kwargs;
          s1 = (case (found, spanMapping s runId) of
                  (Some v, Some h) \<Rightarrow> s\<lparr>spanMapping := (spanMapping s)(runId \<mapsto> h\<lparr>requestModel := v\<rparr>)\<rparr>
                | _ \<Rightarrow> s);
          model0 = (case found of Some v \<Rightarrow> v | None \<Rightarrow> JUndefined);
          model = (if map_option requestModel (spanMapping s1 runId) = Some JUndefined
                   then JUndefined else model0);
          s2 = setSpanAttribute sp GEN_AI_REQUEST_MODEL model s1;
          s3 = setSpanAttribute sp GEN_AI_RESPONSE_MODEL model s2;
          params = requestParams_of kwargs;
          s4 = setSpanAttribute sp GEN_AI_REQUEST_MAX_TOKENS
                 (js_or (js_get params ''max_tokens'') (js_get params ''max_new_tokens'')) s3;
          s5 = setSpanAttribute sp GEN_AI_REQUEST_TEMPERATURE (js_get params ''temperature'') s4
      in setSpanAttribute sp GEN_AI_REQUEST_TOP_P (js_get params ''top_p'') s5)"

text \<open>\<open>_sanitizeMetadataValue(value)\<close>\<close>

fun sanitizeMetadataValue :: "env \<Rightarrow> jsval \<Rightarrow> jsval" where
  "sanitizeMetadataValue e JNull = JNull"
| "sanitizeMetadataValue e JUndefined = JNull"
| "sanitizeMetadataValue e (JBool b) = JBool b"
| "sanitizeMetadataValue e (JStr s) = JStr s"
| "sanitizeMetadataValue e (JNum n) = JNum n"
| "sanitizeMetadataValue e (JBuf b) = JBuf b"
| "sanitizeMetadataValue e (JArr xs) =
     JArr (map (\<lambda>v. JStr (js_String e (sanitizeMetadataValue e v))) xs)"
| "sanitizeMetadataValue e (JObj kvs) = JStr (js_String e (JObj kvs))"

text \<open>The loop of \<open>_createSpan\<close> that fills \<open>sanitizedMetadata\<close>.\<close>

definition sanitizedMetadata :: "env \<Rightarrow> jsobj \<Rightarrow> jsobj" where
  "sanitizedMetadata e metadata =
     foldl (\<lambda>acc (k, v). if v \<noteq> JNull \<and> v \<noteq> JUndefined
                          then obj_set acc k (sanitizeMetadataValue e v) else acc) [] metadata"

text \<open>\<open>_endSpan(span, runId)\<close>\<close>

definition endSpan :: "nat \<Rightarrow> string \<Rightarrow> handler_state \<Rightarrow> handler_state" where
  "endSpan sp runId s =
     (case spanMapping s runId of
        None \<Rightarrow> s
      | Some spanHolder \<Rightarrow>
          span_end sp
            (foldl (\<lambda>st childId. case spanMapping st childId of
                                    None \<Rightarrow> st
                                  | Some childSpanHolder \<Rightarrow> span_end (hspan childSpanHolder) st)
                   s (children spanHolder)))"

text \<open>
  \<open>parentRunId && this.spanMapping.has(parentRunId)\<close>: the parent's run id when the test
  succeeds.  An absent \<open>parentRunId\<close> is \<open>None\<close>; the empty string is falsy.
\<close>

definition liveParent :: "string option \<Rightarrow> handler_state \<Rightarrow> string option" where
  "liveParent parentRunId s =
     (case parentRunId of
        None \<Rightarrow> None
      | Some p \<Rightarrow> if p \<noteq> [] \<and> spanMapping s p \<noteq> None then Some p else None)"

text \<open>The \<open>modelId\<close> that \<open>_createSpan\<close> stores in the new holder.\<close>

definition holderModelId :: "jsobj \<Rightarrow> jsval" where
  "holderModelId metadata =
     (let ip = obj_get metadata ''invocation_params'' in
      if truthy ip then
        (if truthy (js_get ip ''base_model_id'') then js_get ip ''base_model_id''
         else if truthy (js_get ip ''model_id'') then js_get ip ''model_id''
         else JStr ''unknown'')
      else JStr ''unknown'')"

text \<open>
  \<open>_createSpan(runId, parentRunId, spanName, kind, metadata)\<close>; an absent \<open>metadata\<close> is
  \<open>None\<close>.  It returns the new span with the new state.
\<close>

definition createSpan ::
  "env \<Rightarrow> string \<Rightarrow> string option \<Rightarrow> string \<Rightarrow> span_kind \<Rightarrow> jsobj option \<Rightarrow> handler_state
     \<Rightarrow> nat \<times> handler_state" where
  "createSpan e runId parentRunId spanName kind metadata0 s =
     (let metadata = (case metadata0 of None \<Rightarrow> [] | Some m \<Rightarrow> m);
          s1 = s\<lparr>assoc_log := assoc_log s @
                 [obj_spread (association_properties e) (sanitizedMetadata e metadata)]\<rparr>;
          (span, s2) =
            (case liveParent parentRunId s1 of
               Some p \<Rightarrow> tracer_startSpan spanName kind (map_option hspan (spanMapping s1 p)) s1
             | None \<Rightarrow> tracer_startSpan spanName kind None s1);
          s3 = s2\<lparr>spanMapping := (spanMapping s2)
                 (runId \<mapsto> \<lparr>hspan = span, children = [], requestModel = holderModelId metadata\<rparr>)\<rparr>;
          s4 = (case liveParent parentRunId s3 of
                  Some p \<Rightarrow>
                    (case spanMapping s3 p of
                       Some ph \<Rightarrow> s3\<lparr>spanMapping := (spanMapping s3)
                                    (p \<mapsto> ph\<lparr>children := children ph @ [runId]\<rparr>)\<rparr>
                     | None \<Rightarrow> s3)
                | None \<Rightarrow> s3)
      in (span, s4))"

text \<open>
  \<open>_getNameFromCallback(serialized, tags, metadata, kwargs)\<close>.  \<open>Serialized.id\<close> is
  declared \<open>string[]\<close>; \<open>serialized.id[serialized.id.length - 1]\<close> is its last element, or
  \<open>undefined\<close> when it is empty.  For an \<open>id\<close> that is \<open>null\<close> or \<open>undefined\<close>, which the
  declared type excludes, the source throws a TypeError; \<open>lastElement\<close> does not model
  that input and gives \<open>undefined\<close> there.
\<close>

fun lastElement :: "jsval \<Rightarrow> jsval" where
  "lastElement (JArr xs) = (if xs = [] then JUndefined else last xs)"
| "lastElement (JStr s) = (if s = [] then JUndefined else JStr [last s])"
| "lastElement v = JUndefined"

definition getNameFromCallback :: "jsobj \<Rightarrow> jsobj \<Rightarrow> jsval" where
  "getNameFromCallback serialized kwargs =
     (if truthy (obj_get serialized ''kwargs'') \<and> truthy (js_get (obj_get serialized ''kwargs'') ''name'')
        then js_get (obj_get serialized ''kwargs'') ''name''
      else if truthy (obj_get kwargs ''name'') then obj_get kwargs ''name''
      else if truthy (obj_get serialized ''name'') then obj_get serialized ''name''
      else if ''id'' \<in> fst ` set serialized then lastElement (obj_get serialized ''id'')
      else JStr ''unknown'')"

section \<open>The handlers\<close>

text \<open>
  Parameters that a handler never reads (\<open>messages\<close>, \<open>prompt\<close>, \<open>tags\<close>, \<open>runName\<close>,
  \<open>runType\<close>, the \<open>parentRunId\<close> of the end, error and agent events) are left out, and so
  is the console output.  An optional parameter is an \<open>option\<close>.  A handler that can
  throw returns a sum, \<open>Inl\<close> carrying the exception.

  In the source every placeholder of a span-name template is escaped with a backslash
  (\<^verbatim>\<open>`chain \${name}`\<close>), so the span name is the text of the template itself, with the
  dollar sign and the braces, and the name the handler has computed is not part of it.
\<close>

datatype js_exn = TypeError

text \<open>
  \<open>_handleError(error, runId, parentRunId, kwargs)\<close>.  The public error handlers pass
  an \<open>err\<close> of type \<open>any\<close>; reading \<open>error.message\<close> of \<open>null\<close> or \<open>undefined\<close> throws.
\<close>

definition handleError :: "env \<Rightarrow> jsval \<Rightarrow> string \<Rightarrow> handler_state \<Rightarrow> js_exn + handler_state" where
  "handleError e error runId s =
     (if suppress e then Inr s
      else case spanMapping s runId of
        None \<Rightarrow> Inr s
      | Some spanHolder \<Rightarrow>
          if error = JUndefined \<or> error = JNull then Inl TypeError
          else
            (let span = hspan spanHolder;
                 s1 = span_setStatus_error span (js_get error ''message'') s;
                 s2 = span_recordException span error s1
             in Inr (endSpan span runId s2)))"

definition chatModelId :: "jsobj option \<Rightarrow> jsval" where
  "chatModelId extraParams =
     (case extraParams of
        None \<Rightarrow> JUndefined
      | Some ep \<Rightarrow>
          (let ip = obj_get ep ''invocation_params'' in
           if truthy ip \<and> typeof_object ip \<and> js_in ''model_id'' ip
           then js_get ip ''model_id'' else JUndefined))"

definition handleChatModelStart ::
  "env \<Rightarrow> jsobj \<Rightarrow> string \<Rightarrow> string option \<Rightarrow> jsobj option \<Rightarrow> jsobj option
     \<Rightarrow> handler_state \<Rightarrow> handler_state" where
  "handleChatModelStart e llm runId parentRunId extraParams metadata s =
     (if suppress e then s
      else
        (let modelId = chatModelId extraParams;
             name = (if truthy modelId then modelId else obj_get llm ''name'');
             (span, s1) = createSpan e runId parentRunId ''${GenAIOperationValues.CHAT} ${name}''
                            INTERNAL metadata s
         in case extraParams of
              Some ep \<Rightarrow> setRequestParams span ep runId s1
            | None \<Rightarrow> s1))"

definition llmModelId :: "jsobj option \<Rightarrow> jsval" where
  "llmModelId extraParams =
     (case extraParams of
        None \<Rightarrow> JUndefined
      | Some ep \<Rightarrow>
          (let ip = obj_get ep ''invocation_params'' in
           if truthy ip \<and> truthy (js_get ip ''model_id'')
           then js_get ip ''model_id'' else JUndefined))"

definition handleLLMStart ::
  "env \<Rightarrow> jsobj \<Rightarrow> string \<Rightarrow> string option \<Rightarrow> jsobj option \<Rightarrow> jsobj option
     \<Rightarrow> handler_state \<Rightarrow> handler_state" where
  "handleLLMStart e llm runId parentRunId extraParams metadata s =
     (if suppress e then s
      else
        (let kwargs = (case extraParams of None \<Rightarrow> [] | Some ep \<Rightarrow> ep);
             modelId = llmModelId extraParams;
             name = (if truthy modelId then modelId else getNameFromCallback llm kwargs);
             (span, s1) = createSpan e runId parentRunId ''${GenAIOperationValues.CHAT} ${name}'' CLIENT
                            (Some (case metadata of None \<Rightarrow> [] | Some m \<Rightarrow> m)) s;
             s2 = setSpanAttribute span GEN_AI_OPERATION_NAME (JStr CHAT) s1;
             s3 = setRequestParams span kwargs runId s2;
             s4 = setSpanAttribute span GEN_AI_SYSTEM (obj_get llm ''name'') s3
         in setSpanAttribute span GEN_AI_OPERATION_NAME (JStr ''text_completion'') s4))"

text \<open>
  The token counts that \<open>handleLLMEnd\<close> reads from the usage block
  \<open>output.llmOutput.token_usage || output.llmOutput.usage\<close>.
\<close>

definition promptTokens :: "jsval \<Rightarrow> jsval" where
  "promptTokens tokenUsage =
     js_or (js_or (js_get tokenUsage ''prompt_tokens'') (js_get tokenUsage ''input_token_count''))
           (js_get tokenUsage ''input_tokens'')"

definition completionTokens :: "jsval \<Rightarrow> jsval" where
  "completionTokens tokenUsage =
     js_or (js_or (js_get tokenUsage ''completion_tokens'')
                  (js_get tokenUsage ''generated_token_count''))
           (js_get tokenUsage ''output_tokens'')"

definition handleLLMEnd :: "env \<Rightarrow> jsobj \<Rightarrow> string \<Rightarrow> handler_state \<Rightarrow> handler_state" where
  "handleLLMEnd e output runId s =
     (if suppress e then s
      else case spanMapping s runId of
        None \<Rightarrow> s
      | Some spanHolder \<Rightarrow>
          (let span = hspan spanHolder;
               llmOutput = obj_get output ''llmOutput'';
               s4 =
                 (if truthy llmOutput then
                    (let modelName = js_or (js_get llmOutput ''model_name'') (js_get llmOutput ''model_id'');
                         s1 = (if truthy modelName
                               then setSpanAttribute span GEN_AI_RESPONSE_MODEL modelName s else s);
                         id = js_get llmOutput ''id'';
                         s2 = (if id \<noteq> JUndefined \<and> id \<noteq> JStr []
                               then setSpanAttribute span GEN_AI_RESPONSE_ID id s1 else s1);
                         tokenUsage = js_or (js_get llmOutput ''token_usage'') (js_get llmOutput ''usage'')
                     in if truthy tokenUsage then
                          (let s3 = setSpanAttribute span GEN_AI_USAGE_INPUT_TOKENS
                                      (promptTokens tokenUsage) s2
                           in setSpanAttribute span GEN_AI_USAGE_OUTPUT_TOKENS
                                (completionTokens tokenUsage) s3)
                        else s2)
                  else s)
           in endSpan span runId s4))"

definition handleLLMError :: "env \<Rightarrow> jsval \<Rightarrow> string \<Rightarrow> handler_state \<Rightarrow> js_exn + handler_state" where
  "handleLLMError e err runId s = handleError e err runId s"

definition handleChainStart ::
  "env \<Rightarrow> jsobj \<Rightarrow> jsval \<Rightarrow> string \<Rightarrow> string option \<Rightarrow> jsobj option
     \<Rightarrow> handler_state \<Rightarrow> handler_state" where
  "handleChainStart e chain inputs runId parentRunId metadata s =
     (if suppress e then s
      else
        (let name = getNameFromCallback chain [];
             (span, s1) = createSpan e runId parentRunId ''chain ${name}''
                            INTERNAL metadata s;
             s2 = (case metadata of
                     Some m \<Rightarrow> if truthy (obj_get m ''agent_name'')
                               then setSpanAttribute span GEN_AI_AGENT_NAME (obj_get m ''agent_name'') s1
                               else s1
                   | None \<Rightarrow> s1)
         in setSpanAttribute span ''gen_ai.prompt'' (JStr (js_String e inputs)) s2))"

definition handleChainEnd :: "env \<Rightarrow> jsval \<Rightarrow> string \<Rightarrow> handler_state \<Rightarrow> handler_state" where
  "handleChainEnd e outputs runId s =
     (if suppress e then s
      else case spanMapping s runId of
        None \<Rightarrow> s
      | Some spanHolder \<Rightarrow>
          (let span = hspan spanHolder;
               s1 = setSpanAttribute span ''gen_ai.completion'' (JStr (js_String e outputs)) s
           in endSpan span runId s1))"

definition handleChainError :: "env \<Rightarrow> jsval \<Rightarrow> string \<Rightarrow> handler_state \<Rightarrow> js_exn + handler_state" where
  "handleChainError e err runId s = handleError e err runId s"

definition handleToolStart ::
  "env \<Rightarrow> jsobj \<Rightarrow> jsval \<Rightarrow> string \<Rightarrow> string option \<Rightarrow> jsobj option
     \<Rightarrow> handler_state \<Rightarrow> handler_state" where
  "handleToolStart e tool input runId parentRunId metadata s =
     (if suppress e then s
      else
        (let name = getNameFromCallback tool [];
             (span, s1) = createSpan e runId parentRunId ''execute_tool ${name}''
                            INTERNAL metadata s;
             s2 = setSpanAttribute span ''gen_ai.tool.input'' input s1;
             s3 = (if truthy (obj_get tool ''id'')
                   then setSpanAttribute span GEN_AI_TOOL_CALL_ID (obj_get tool ''id'') s2 else s2);
             s4 = setSpanAttribute span GEN_AI_TOOL_NAME name s3
         in setSpanAttribute span GEN_AI_OPERATION_NAME (JStr ''execute_tool'') s4))"

definition handleToolEnd :: "env \<Rightarrow> jsval \<Rightarrow> string \<Rightarrow> handler_state \<Rightarrow> handler_state" where
  "handleToolEnd e output runId s =
     (if suppress e then s
      else case spanMapping s runId of
        None \<Rightarrow> s
      | Some spanHolder \<Rightarrow>
          (let span = hspan spanHolder;
               s1 = setSpanAttribute span ''gen_ai.tool.output'' (JStr (js_String e output)) s
           in endSpan span runId s1))"

definition handleToolError :: "env \<Rightarrow> jsval \<Rightarrow> string \<Rightarrow> handler_state \<Rightarrow> js_exn + handler_state" where
  "handleToolError e err runId s = handleError e err runId s"

text \<open>
  The two agent handlers; neither reads the active context.  \<open>AgentFinish.returnValues\<close>
  is declared a record; for a \<open>returnValues\<close> that is \<open>null\<close> or \<open>undefined\<close>, which the
  declared type excludes, the source throws a TypeError on a live run, an input that
  \<open>handleAgentEnd\<close> does not model (it reads \<open>undefined\<close> there).
\<close>

definition handleAgentAction :: "env \<Rightarrow> jsobj \<Rightarrow> string \<Rightarrow> handler_state \<Rightarrow> handler_state" where
  "handleAgentAction e action runId s =
     (case spanMapping s runId of
        None \<Rightarrow> s
      | Some spanHolder \<Rightarrow>
          (let span = hspan spanHolder;
               s1 = setSpanAttribute span ''gen_ai.agent.tool.input'' (obj_get action ''toolInput'') s;
               s2 = setSpanAttribute span ''gen_ai.agent.tool.name'' (obj_get action ''tool'') s1
           in setSpanAttribute span GEN_AI_OPERATION_NAME (JStr ''invoke_agent'') s2))"

definition handleAgentEnd :: "env \<Rightarrow> jsobj \<Rightarrow> string \<Rightarrow> handler_state \<Rightarrow> handler_state" where
  "handleAgentEnd e action runId s =
     (case spanMapping s runId of
        None \<Rightarrow> s
      | Some spanHolder \<Rightarrow>
          setSpanAttribute (hspan spanHolder) ''gen_ai.agent.tool.output''
            (js_get (obj_get action ''returnValues'') ''output'') s)"

section \<open>Events\<close>

text \<open>
  The callback manager calls one handler per event.  \<open>handle\<close> dispatches an event to its
  handler, so that a statement about every handler can be made once.
\<close>

datatype event =
    ChatModelStart jsobj string "string option" "jsobj option" "jsobj option"
  | LLMStart jsobj string "string option" "jsobj option" "jsobj option"
  | LLMEnd jsobj string
  | LLMError jsval string
  | ChainStart jsobj jsval string "string option" "jsobj option"
  | ChainEnd jsval string
  | ChainError jsval string
  | ToolStart jsobj jsval string "string option" "jsobj option"
  | ToolEnd jsval string
  | ToolError jsval string
  | AgentAction jsobj string
  | AgentEnd jsobj string

fun handle :: "env \<Rightarrow> event \<Rightarrow> handler_state \<Rightarrow> js_exn + handler_state" where
  "handle e (ChatModelStart llm r p ep md) s = Inr (handleChatModelStart e llm r p ep md s)"
| "handle e (LLMStart llm r p ep md) s = Inr (handleLLMStart e llm r p ep md s)"
| "handle e (LLMEnd out r) s = Inr (handleLLMEnd e out r s)"
| "handle e (LLMError err r) s = handleLLMError e err r s"
| "handle e (ChainStart chain inputs r p md) s = Inr (handleChainStart e chain inputs r p md s)"
| "handle e (ChainEnd outputs r) s = Inr (handleChainEnd e outputs r s)"
| "handle e (ChainError err r) s = handleChainError e err r s"
| "handle e (ToolStart tool input r p md) s = Inr (handleToolStart e tool input r p md s)"
| "handle e (ToolEnd output r) s = Inr (handleToolEnd e output r s)"
| "handle e (ToolError err r) s = handleToolError e err r s"
| "handle e (AgentAction a r) s = Inr (handleAgentAction e a r s)"
| "handle e (AgentEnd a r) s = Inr (handleAgentEnd e a r s)"

text \<open>The events that end a run (end and error events), and their run id.\<close>

fun closing_runId :: "event \<Rightarrow> string option" where
  "closing_runId (LLMEnd out r) = Some r"
| "closing_runId (LLMError err r) = Some r"
| "closing_runId (ChainEnd outputs r) = Some r"
| "closing_runId (ChainError err r) = Some r"
| "closing_runId (ToolEnd output r) = Some r"
| "closing_runId (ToolError err r) = Some r"
| "closing_runId ev = None"


fun is_error_event :: "event \<Rightarrow> bool" where
  "is_error_event (LLMError err r) = True"
| "is_error_event (ChainError err r) = True"
| "is_error_event (ToolError err r) = True"
| "is_error_event ev = False"

section \<open>Notions used in the statements\<close>

text \<open>The guard of \<open>setSpanAttribute\<close>, and the attribute map it leaves.\<close>

definition present :: "jsval \<Rightarrow> bool" where
  "present v = (v \<noteq> JUndefined \<and> v \<noteq> JNull \<and> v \<noteq> JStr [])"

definition set_if_present :: "string \<Rightarrow> jsval \<Rightarrow> (string \<rightharpoonup> jsval) \<Rightarrow> (string \<rightharpoonup> jsval)" where
  "set_if_present k v m = (if present v then m(k \<mapsto> v) else m)"

text \<open>The value of \<open>model\<close> at the end of the model search of \<open>setRequestParams\<close>.\<close>

definition resolvedModel :: "jsobj \<Rightarrow> jsval" where
  "resolvedModel kwargs =
     (case findModel [''model_id'', ''base_model_id''] kwargs of Some v \<Rightarrow> v | None \<Rightarrow> JUndefined)"

text \<open>
  What a start handler does to the state for the run \<open>r\<close> with parent \<open>p\<close>: one span is
  appended, the earlier spans are as they were, the record of \<open>r\<close> holds the new span,
  and the only other record that changes is that of a live parent, which gets \<open>r\<close>
  appended to its children.
\<close>

definition parentSpan :: "string option \<Rightarrow> handler_state \<Rightarrow> nat option" where
  "parentSpan p s = (case liveParent p s of
                       Some q \<Rightarrow> map_option hspan (spanMapping s q) | None \<Rightarrow> None)"

definition started :: "string \<Rightarrow> string option \<Rightarrow> handler_state \<Rightarrow> handler_state \<Rightarrow> bool" where
  "started r p s s' \<longleftrightarrow>
     length (spans s') = Suc (length (spans s))
     \<and> (\<forall>i < length (spans s). spans s' ! i = spans s ! i)
     \<and> sp_parent (spans s' ! length (spans s)) = parentSpan p s
     \<and> sp_end_calls (spans s' ! length (spans s)) = 0
     \<and> sp_status (spans s' ! length (spans s)) = UNSET
     \<and> sp_exceptions (spans s' ! length (spans s)) = []
     \<and> (\<forall>q. q \<noteq> r \<longrightarrow>
           spanMapping s' q =
             (if liveParent p s = Some q
              then map_option (\<lambda>h. h\<lparr>children := children h @ [r]\<rparr>) (spanMapping s q)
              else spanMapping s q))
     \<and> map_option hspan (spanMapping s' r) = Some (length (spans s))
     \<and> map_option children (spanMapping s' r) = Some (if p = Some r \<and> r \<noteq> [] then [r] else [])"

text \<open>The start events, with their run id and parent run id.\<close>

fun starting :: "event \<Rightarrow> (string \<times> string option) option" where
  "starting (ChatModelStart llm r p ep md) = Some (r, p)"
| "starting (LLMStart llm r p ep md) = Some (r, p)"
| "starting (ChainStart chain inputs r p md) = Some (r, p)"
| "starting (ToolStart tool input r p md) = Some (r, p)"
| "starting ev = None"

text \<open>
  The priority order of the model search as the specification words it: the direct
  fields \<open>model_id\<close>, \<open>base_model_id\<close> first, then the same keys under
  \<open>invocation_params\<close>.  It is compared with \<open>findModel\<close> below.
\<close>

definition spec_findModel :: "jsobj \<Rightarrow> jsval option" where
  "spec_findModel kwargs =
     (if obj_get kwargs ''model_id'' \<noteq> JUndefined then Some (obj_get kwargs ''model_id'')
      else if obj_get kwargs ''base_model_id'' \<noteq> JUndefined then Some (obj_get kwargs ''base_model_id'')
      else if js_get (obj_get kwargs ''invocation_params'') ''model_id'' \<noteq> JUndefined
        then Some (js_get (obj_get kwargs ''invocation_params'') ''model_id'')
      else if js_get (obj_get kwargs ''invocation_params'') ''base_model_id'' \<noteq> JUndefined
        then Some (js_get (obj_get kwargs ''invocation_params'') ''base_model_id'')
      else None)"

section \<open>A concrete run\<close>

text \<open>
  A concrete context and a concrete handler state, used to evaluate the theorems below:
  a chain \<open>p\<close> with the tools \<open>c1\<close> and \<open>c2\<close> started under it, a tool \<open>g\<close> started
  under \<open>c2\<close>, and \<open>c1\<close> already ended.
\<close>

definition demo_env :: env where
  "demo_env = \<lparr>suppress = False, association_properties = [],
                numToString = (\<lambda>n. ''0''), bufToString = (\<lambda>b. [])\<rparr>"

definition demo_tree :: handler_state where
  "demo_tree =
     handleToolEnd demo_env (JStr ''done'') ''c1''
       (handleToolStart demo_env [(''name'', JStr ''g'')] (JStr ''in'') ''g'' (Some ''c2'') None
         (handleToolStart demo_env [(''name'', JStr ''t2'')] (JStr ''in'') ''c2'' (Some ''p'') None
           (handleToolStart demo_env [(''name'', JStr ''t1'')] (JStr ''in'') ''c1'' (Some ''p'') None
             (handleChainStart demo_env [(''name'', JStr ''c'')] (JObj []) ''p'' None None init_state))))"

text \<open>A completion run \<open>r\<close> started on the fresh handler, with a temperature of 0.7.\<close>

definition demo_llm :: handler_state where
  "demo_llm =
     handleLLMStart demo_env [(''name'', JStr ''openai'')] ''r'' None
       (Some [(''temperature'', JNum (Fin (7 / 10))), (''top_p'', JUndefined)]) None init_state"


text \<open>The fresh handler after the start of a chain \<open>p\<close>.\<close>

definition demo_parent :: handler_state where
  "demo_parent =
     handleChainStart demo_env [(''name'', JStr ''c'')] (JObj []) ''p'' None None init_state"



section \<open>Basic facts about the span operations\<close>

lemma upd_span_nth:
  "spans (upd_span i f s) ! j = (if j = i \<and> i < length (spans s) then f (spans s ! i) else spans s ! j)"
  by (cases "i < length (spans s)") (auto simp: upd_span_def list_update_beyond)

lemma upd_span_frame [simp]:
  "spanMapping (upd_span i f s) = spanMapping s"
  "assoc_log (upd_span i f s) = assoc_log s"
  "length (spans (upd_span i f s)) = length (spans s)"
  by (simp_all add: upd_span_def)

lemma span_end_frame [simp]:
  "spanMapping (span_end i s) = spanMapping s"
  "assoc_log (span_end i s) = assoc_log s"
  "length (spans (span_end i s)) = length (spans s)"
  "sp_attributes (spans (span_end i s) ! j) = sp_attributes (spans s ! j)"
  "sp_status (spans (span_end i s) ! j) = sp_status (spans s ! j)"
  "sp_exceptions (spans (span_end i s) ! j) = sp_exceptions (spans s ! j)"
  "sp_parent (spans (span_end i s) ! j) = sp_parent (spans s ! j)"
  "sp_name (spans (span_end i s) ! j) = sp_name (spans s ! j)"
  "sp_kind (spans (span_end i s) ! j) = sp_kind (spans s ! j)"
  by (simp_all add: span_end_def upd_span_nth)

lemma span_end_calls:
  "sp_end_calls (spans (span_end i s) ! j) =
     (if j = i \<and> i < length (spans s) then Suc (sp_end_calls (spans s ! j)) else sp_end_calls (spans s ! j))"
  by (simp add: span_end_def upd_span_nth)

lemma setSpanAttribute_frame [simp]:
  "spanMapping (setSpanAttribute sp nm v s) = spanMapping s"
  "assoc_log (setSpanAttribute sp nm v s) = assoc_log s"
  "length (spans (setSpanAttribute sp nm v s)) = length (spans s)"
  "sp_end_calls (spans (setSpanAttribute sp nm v s) ! j) = sp_end_calls (spans s ! j)"
  "sp_status (spans (setSpanAttribute sp nm v s) ! j) = sp_status (spans s ! j)"
  "sp_exceptions (spans (setSpanAttribute sp nm v s) ! j) = sp_exceptions (spans s ! j)"
  "sp_parent (spans (setSpanAttribute sp nm v s) ! j) = sp_parent (spans s ! j)"
  "sp_name (spans (setSpanAttribute sp nm v s) ! j) = sp_name (spans s ! j)"
  "sp_kind (spans (setSpanAttribute sp nm v s) ! j) = sp_kind (spans s ! j)"
  by (simp_all add: setSpanAttribute_def span_setAttribute_def upd_span_nth)

lemma setSpanAttribute_attributes:
  "sp_attributes (spans (setSpanAttribute sp nm v s) ! j) =
     (if j = sp \<and> sp < length (spans s) \<and> v \<noteq> JUndefined \<and> v \<noteq> JNull \<and> v \<noteq> JStr []
      then (sp_attributes (spans s ! j))(nm \<mapsto> v) else sp_attributes (spans s ! j))"
  by (simp add: setSpanAttribute_def span_setAttribute_def upd_span_nth)

text \<open>The loop of \<open>endSpan\<close> over the children.\<close>

lemma endChildren_frame:
  "spanMapping (foldl (\<lambda>st c. case spanMapping st c of None \<Rightarrow> st
                               | Some ch \<Rightarrow> span_end (hspan ch) st) s cs) = spanMapping s
   \<and> assoc_log (foldl (\<lambda>st c. case spanMapping st c of None \<Rightarrow> st
                               | Some ch \<Rightarrow> span_end (hspan ch) st) s cs) = assoc_log s
   \<and> length (spans (foldl (\<lambda>st c. case spanMapping st c of None \<Rightarrow> st
                               | Some ch \<Rightarrow> span_end (hspan ch) st) s cs)) = length (spans s)
   \<and> sp_attributes (spans (foldl (\<lambda>st c. case spanMapping st c of None \<Rightarrow> st
                               | Some ch \<Rightarrow> span_end (hspan ch) st) s cs) ! j) = sp_attributes (spans s ! j)
   \<and> sp_status (spans (foldl (\<lambda>st c. case spanMapping st c of None \<Rightarrow> st
                               | Some ch \<Rightarrow> span_end (hspan ch) st) s cs) ! j) = sp_status (spans s ! j)
   \<and> sp_exceptions (spans (foldl (\<lambda>st c. case spanMapping st c of None \<Rightarrow> st
                               | Some ch \<Rightarrow> span_end (hspan ch) st) s cs) ! j) = sp_exceptions (spans s ! j)
   \<and> sp_parent (spans (foldl (\<lambda>st c. case spanMapping st c of None \<Rightarrow> st
                               | Some ch \<Rightarrow> span_end (hspan ch) st) s cs) ! j) = sp_parent (spans s ! j)
   \<and> sp_name (spans (foldl (\<lambda>st c. case spanMapping st c of None \<Rightarrow> st
                               | Some ch \<Rightarrow> span_end (hspan ch) st) s cs) ! j) = sp_name (spans s ! j)
   \<and> sp_kind (spans (foldl (\<lambda>st c. case spanMapping st c of None \<Rightarrow> st
                               | Some ch \<Rightarrow> span_end (hspan ch) st) s cs) ! j) = sp_kind (spans s ! j)"
  by (induction cs arbitrary: s) (auto split: option.splits)

lemma endChildren_calls:
  "i < length (spans s) \<Longrightarrow>
   sp_end_calls (spans (foldl (\<lambda>st c. case spanMapping st c of None \<Rightarrow> st
                               | Some ch \<Rightarrow> span_end (hspan ch) st) s cs) ! i) =
   sp_end_calls (spans s ! i) + length (filter (\<lambda>c. map_option hspan (spanMapping s c) = Some i) cs)"
  by (induction cs arbitrary: s) (auto simp: span_end_calls split: option.splits)

lemma endSpan_frame [simp]:
  "spanMapping (endSpan sp r s) = spanMapping s"
  "assoc_log (endSpan sp r s) = assoc_log s"
  "length (spans (endSpan sp r s)) = length (spans s)"
  "sp_attributes (spans (endSpan sp r s) ! j) = sp_attributes (spans s ! j)"
  "sp_status (spans (endSpan sp r s) ! j) = sp_status (spans s ! j)"
  "sp_exceptions (spans (endSpan sp r s) ! j) = sp_exceptions (spans s ! j)"
  "sp_parent (spans (endSpan sp r s) ! j) = sp_parent (spans s ! j)"
  "sp_name (spans (endSpan sp r s) ! j) = sp_name (spans s ! j)"
  "sp_kind (spans (endSpan sp r s) ! j) = sp_kind (spans s ! j)"
  by (simp_all add: endSpan_def endChildren_frame split: option.splits)

lemma endSpan_calls:
  "i < length (spans s) \<Longrightarrow>
   sp_end_calls (spans (endSpan sp r s) ! i) =
     (case spanMapping s r of
        None \<Rightarrow> sp_end_calls (spans s ! i)
      | Some h \<Rightarrow> sp_end_calls (spans s ! i)
          + length (filter (\<lambda>c. map_option hspan (spanMapping s c) = Some i) (children h))
          + (if i = sp then 1 else 0))"
  by (simp add: endSpan_def span_end_calls endChildren_frame endChildren_calls split: option.splits)

lemma upd_span_other: "j \<noteq> i \<Longrightarrow> spans (upd_span i f s) ! j = spans s ! j"
  by (simp add: upd_span_nth)

lemma span_end_log:
  "sp_calls (spans (span_end i s) ! j) =
     (if j = i \<and> i < length (spans s) then sp_calls (spans s ! j) @ [End] else sp_calls (spans s ! j))"
  by (simp add: span_end_def upd_span_nth)

lemma endChildren_log:
  "i < length (spans s) \<Longrightarrow>
   sp_calls (spans (foldl (\<lambda>st c. case spanMapping st c of None \<Rightarrow> st
                               | Some ch \<Rightarrow> span_end (hspan ch) st) s cs) ! i) =
   sp_calls (spans s ! i)
     @ replicate (length (filter (\<lambda>c. map_option hspan (spanMapping s c) = Some i) cs)) End"
  by (induction cs arbitrary: s)
     (auto simp: span_end_log replicate_append_same split: option.splits)

lemma endSpan_log:
  "i < length (spans s) \<Longrightarrow>
   sp_calls (spans (endSpan sp r s) ! i) =
     (case spanMapping s r of
        None \<Rightarrow> sp_calls (spans s ! i)
      | Some h \<Rightarrow> sp_calls (spans s ! i)
          @ replicate (length (filter (\<lambda>c. map_option hspan (spanMapping s c) = Some i) (children h))
                       + (if i = sp then 1 else 0)) End)"
  by (simp add: endSpan_def span_end_log endChildren_frame endChildren_log
        replicate_append_same split: option.splits)

lemma setSpanAttribute_log:
  "sp_calls (spans (setSpanAttribute sp nm v s) ! j) =
     (if j = sp \<and> sp < length (spans s) \<and> v \<noteq> JUndefined \<and> v \<noteq> JNull \<and> v \<noteq> JStr []
      then sp_calls (spans s ! j) @ [SetAttribute nm v] else sp_calls (spans s ! j))"
  by (simp add: setSpanAttribute_def span_setAttribute_def upd_span_nth)

lemma setSpanAttribute_other:
  "j \<noteq> sp \<Longrightarrow> spans (setSpanAttribute sp nm v s) ! j = spans s ! j"
  by (simp add: setSpanAttribute_def span_setAttribute_def upd_span_other)

section \<open>Facts about \<open>setRequestParams\<close>\<close>

lemma setSpanAttribute_attrs:
  "sp_attributes (spans (setSpanAttribute sp nm v s) ! j) =
     (if j = sp \<and> sp < length (spans s) then set_if_present nm v (sp_attributes (spans s ! j))
      else sp_attributes (spans s ! j))"
  by (simp add: setSpanAttribute_attributes set_if_present_def present_def)

lemma findModel_defined: "findModel tags kw = Some v \<Longrightarrow> v \<noteq> JUndefined"
proof (induction tags)
  case Nil
  then show ?case by simp
next
  case (Cons t tags)
  have empty: "js_get (JObj []) t = JUndefined"
    by (simp add: obj_get_def)
  show ?case
    using Cons empty by (auto simp: js_or_def split: if_splits)
qed

declare findModel.simps [simp del]

lemma setRequestParams_cases:
  "setRequestParams sp kw r s =
     setSpanAttribute sp GEN_AI_REQUEST_TOP_P (js_get (requestParams_of kw) ''top_p'')
      (setSpanAttribute sp GEN_AI_REQUEST_TEMPERATURE (js_get (requestParams_of kw) ''temperature'')
        (setSpanAttribute sp GEN_AI_REQUEST_MAX_TOKENS
           (js_or (js_get (requestParams_of kw) ''max_tokens'')
                  (js_get (requestParams_of kw) ''max_new_tokens''))
          (setSpanAttribute sp GEN_AI_RESPONSE_MODEL (resolvedModel kw)
            (setSpanAttribute sp GEN_AI_REQUEST_MODEL (resolvedModel kw)
              (case (findModel [''model_id'', ''base_model_id''] kw, spanMapping s r) of
                 (Some v, Some h) \<Rightarrow> s\<lparr>spanMapping := (spanMapping s)(r \<mapsto> h\<lparr>requestModel := v\<rparr>)\<rparr>
               | _ \<Rightarrow> s)))))"
proof (cases "findModel [''model_id'', ''base_model_id''] kw")
  case None
  then show ?thesis
    unfolding setRequestParams_def resolvedModel_def Let_def by simp
next
  case (Some v)
  then have v: "v \<noteq> JUndefined" by (rule findModel_defined)
  show ?thesis
  proof (cases "spanMapping s r")
    case None
    with Some show ?thesis
      unfolding setRequestParams_def resolvedModel_def Let_def by simp
  next
    case h: (Some h)
    with Some v show ?thesis
      unfolding setRequestParams_def resolvedModel_def Let_def by simp
  qed
qed

lemma setRequestParams_frame [simp]:
  "assoc_log (setRequestParams sp kw r s) = assoc_log s"
  "length (spans (setRequestParams sp kw r s)) = length (spans s)"
  "sp_end_calls (spans (setRequestParams sp kw r s) ! j) = sp_end_calls (spans s ! j)"
  "sp_status (spans (setRequestParams sp kw r s) ! j) = sp_status (spans s ! j)"
  "sp_exceptions (spans (setRequestParams sp kw r s) ! j) = sp_exceptions (spans s ! j)"
  "sp_parent (spans (setRequestParams sp kw r s) ! j) = sp_parent (spans s ! j)"
  "sp_name (spans (setRequestParams sp kw r s) ! j) = sp_name (spans s ! j)"
  "sp_kind (spans (setRequestParams sp kw r s) ! j) = sp_kind (spans s ! j)"
  by (simp_all add: setRequestParams_cases split: option.splits)

lemma setRequestParams_mapping:
  "spanMapping (setRequestParams sp kw r s) q =
     (if q = r then
        (case (findModel [''model_id'', ''base_model_id''] kw, spanMapping s r) of
           (Some v, Some h) \<Rightarrow> Some (h\<lparr>requestModel := v\<rparr>)
         | _ \<Rightarrow> spanMapping s r)
      else spanMapping s q)"
  by (simp add: setRequestParams_cases split: option.splits)

lemma setRequestParams_attributes:
  "sp < length (spans s) \<Longrightarrow>
   sp_attributes (spans (setRequestParams sp kw r s) ! sp) =
     set_if_present GEN_AI_REQUEST_TOP_P (js_get (requestParams_of kw) ''top_p'')
      (set_if_present GEN_AI_REQUEST_TEMPERATURE (js_get (requestParams_of kw) ''temperature'')
        (set_if_present GEN_AI_REQUEST_MAX_TOKENS
           (js_or (js_get (requestParams_of kw) ''max_tokens'')
                  (js_get (requestParams_of kw) ''max_new_tokens''))
          (set_if_present GEN_AI_RESPONSE_MODEL (resolvedModel kw)
            (set_if_present GEN_AI_REQUEST_MODEL (resolvedModel kw)
               (sp_attributes (spans s ! sp))))))"
  by (simp add: setRequestParams_cases setSpanAttribute_attrs split: option.splits)

lemma setRequestParams_other:
  "j \<noteq> sp \<Longrightarrow> spans (setRequestParams sp kw r s) ! j = spans s ! j"
  by (simp add: setRequestParams_cases setSpanAttribute_other split: option.splits)


section \<open>Facts about \<open>createSpan\<close>\<close>

lemma createSpan_fst [simp]: "fst (createSpan e r p nm k md s) = length (spans s)"
  by (simp add: createSpan_def Let_def tracer_startSpan_def split: option.splits)

lemma createSpan_spans:
  "spans (snd (createSpan e r p nm k md s)) =
     spans s @
     [\<lparr>sp_name = nm, sp_kind = k,
       sp_parent = (case liveParent p s of
                      Some q \<Rightarrow> map_option hspan (spanMapping s q) | None \<Rightarrow> None),
       sp_attributes = Map.empty, sp_status = UNSET, sp_exceptions = [], sp_end_calls = 0,
          sp_calls = []\<rparr>]"
  by (simp add: createSpan_def Let_def tracer_startSpan_def liveParent_def split: option.splits)


lemma createSpan_mapping:
  "spanMapping (snd (createSpan e r p nm k md s)) q =
     (if q = r then
        Some \<lparr>hspan = length (spans s),
              children = (if p = Some r \<and> r \<noteq> [] then [r] else []),
              requestModel = holderModelId (case md of None \<Rightarrow> [] | Some m \<Rightarrow> m)\<rparr>
      else if liveParent p s = Some q
        then map_option (\<lambda>h. h\<lparr>children := children h @ [r]\<rparr>) (spanMapping s q)
      else spanMapping s q)"
  by (auto simp: createSpan_def Let_def tracer_startSpan_def liveParent_def split: option.splits)


lemma started_createSpan: "started r p s (snd (createSpan e r p nm k md s))"
  by (simp add: started_def createSpan_spans createSpan_mapping nth_append parentSpan_def)

lemma started_setSpanAttribute:
  "started r p s s1 \<Longrightarrow> started r p s (setSpanAttribute (length (spans s)) nm v s1)"
  by (simp add: started_def setSpanAttribute_other)

lemma started_setRequestParams:
  "started r p s s1 \<Longrightarrow> started r p s (setRequestParams (length (spans s)) kw r s1)"
  by (auto simp: started_def setRequestParams_other setRequestParams_mapping split: option.splits)

lemma started_handleChatModelStart:
  "\<not> suppress e \<Longrightarrow> started r p s (handleChatModelStart e llm r p ep md s)"
  by (simp add: handleChatModelStart_def Let_def case_prod_unfold started_createSpan
        started_setRequestParams split: option.splits)

lemma started_handleLLMStart:
  "\<not> suppress e \<Longrightarrow> started r p s (handleLLMStart e llm r p ep md s)"
  by (simp add: handleLLMStart_def Let_def case_prod_unfold started_createSpan
        started_setRequestParams started_setSpanAttribute)

lemma started_handleChainStart:
  "\<not> suppress e \<Longrightarrow> started r p s (handleChainStart e chain inputs r p md s)"
  by (simp add: handleChainStart_def Let_def case_prod_unfold started_createSpan
        started_setSpanAttribute split: option.splits)

lemma started_handleToolStart:
  "\<not> suppress e \<Longrightarrow> started r p s (handleToolStart e tool input r p md s)"
  by (simp add: handleToolStart_def Let_def case_prod_unfold started_createSpan
        started_setSpanAttribute)

lemma started_handle:
  "\<not> suppress e \<Longrightarrow> starting ev = Some (r, p) \<Longrightarrow> \<exists>s'. handle e ev s = Inr s' \<and> started r p s s'"
  by (cases ev)
     (simp_all add: started_handleChatModelStart started_handleLLMStart
        started_handleChainStart started_handleToolStart)


section \<open>Facts about the end and error handlers\<close>

lemma span_setStatus_error_frame [simp]:
  "spanMapping (span_setStatus_error i m s) = spanMapping s"
  "assoc_log (span_setStatus_error i m s) = assoc_log s"
  "length (spans (span_setStatus_error i m s)) = length (spans s)"
  "sp_end_calls (spans (span_setStatus_error i m s) ! j) = sp_end_calls (spans s ! j)"
  "sp_attributes (spans (span_setStatus_error i m s) ! j) = sp_attributes (spans s ! j)"
  "sp_exceptions (spans (span_setStatus_error i m s) ! j) = sp_exceptions (spans s ! j)"
  "sp_parent (spans (span_setStatus_error i m s) ! j) = sp_parent (spans s ! j)"
  "sp_name (spans (span_setStatus_error i m s) ! j) = sp_name (spans s ! j)"
  "sp_kind (spans (span_setStatus_error i m s) ! j) = sp_kind (spans s ! j)"
  by (simp_all add: span_setStatus_error_def upd_span_nth)

lemma span_setStatus_error_status:
  "sp_status (spans (span_setStatus_error i m s) ! j) =
     (if j = i \<and> i < length (spans s) then ERROR m else sp_status (spans s ! j))"
  by (simp add: span_setStatus_error_def upd_span_nth)

lemma span_recordException_frame [simp]:
  "spanMapping (span_recordException i err s) = spanMapping s"
  "assoc_log (span_recordException i err s) = assoc_log s"
  "length (spans (span_recordException i err s)) = length (spans s)"
  "sp_end_calls (spans (span_recordException i err s) ! j) = sp_end_calls (spans s ! j)"
  "sp_attributes (spans (span_recordException i err s) ! j) = sp_attributes (spans s ! j)"
  "sp_status (spans (span_recordException i err s) ! j) = sp_status (spans s ! j)"
  "sp_parent (spans (span_recordException i err s) ! j) = sp_parent (spans s ! j)"
  "sp_name (spans (span_recordException i err s) ! j) = sp_name (spans s ! j)"
  "sp_kind (spans (span_recordException i err s) ! j) = sp_kind (spans s ! j)"
  by (simp_all add: span_recordException_def upd_span_nth)

lemma span_recordException_exceptions:
  "sp_exceptions (spans (span_recordException i err s) ! j) =
     (if j = i \<and> i < length (spans s) then sp_exceptions (spans s ! j) @ [err]
      else sp_exceptions (spans s ! j))"
  by (simp add: span_recordException_def upd_span_nth)

text \<open>The number of \<open>end()\<close> calls that closing the record \<open>h\<close> makes on the span \<open>i\<close>.\<close>

lemma handleError_live:
  assumes "\<not> suppress e" and "spanMapping s r = Some h"
  shows "handleError e err r s =
           (if err = JUndefined \<or> err = JNull then Inl TypeError
            else Inr (endSpan (hspan h) r
                   (span_recordException (hspan h) err
                     (span_setStatus_error (hspan h) (js_get err ''message'') s))))"
  using assms by (simp add: handleError_def Let_def)

lemma handleError_noop:
  "suppress e \<or> spanMapping s r = None \<Longrightarrow> handleError e err r s = Inr s"
  by (auto simp: handleError_def)

lemma handleLLMEnd_noop:
  "suppress e \<or> spanMapping s r = None \<Longrightarrow> handleLLMEnd e out r s = s"
  by (auto simp: handleLLMEnd_def)

lemma handleChainEnd_noop:
  "suppress e \<or> spanMapping s r = None \<Longrightarrow> handleChainEnd e out r s = s"
  by (auto simp: handleChainEnd_def)

lemma handleToolEnd_noop:
  "suppress e \<or> spanMapping s r = None \<Longrightarrow> handleToolEnd e out r s = s"
  by (auto simp: handleToolEnd_def)

lemma closing_noop:
  "closing_runId ev = Some r \<Longrightarrow> suppress e \<or> spanMapping s r = None \<Longrightarrow> handle e ev s = Inr s"
  by (cases ev)
     (simp_all add: handleLLMEnd_noop handleChainEnd_noop handleToolEnd_noop handleError_noop
        handleLLMError_def handleChainError_def handleToolError_def)

lemma handleLLMEnd_frame [simp]:
  "spanMapping (handleLLMEnd e out r s) = spanMapping s"
  "assoc_log (handleLLMEnd e out r s) = assoc_log s"
  "length (spans (handleLLMEnd e out r s)) = length (spans s)"
  "sp_status (spans (handleLLMEnd e out r s) ! j) = sp_status (spans s ! j)"
  "sp_exceptions (spans (handleLLMEnd e out r s) ! j) = sp_exceptions (spans s ! j)"
  "sp_parent (spans (handleLLMEnd e out r s) ! j) = sp_parent (spans s ! j)"
  by (simp_all add: handleLLMEnd_def Let_def split: option.splits)

lemma handleChainEnd_frame [simp]:
  "spanMapping (handleChainEnd e out r s) = spanMapping s"
  "assoc_log (handleChainEnd e out r s) = assoc_log s"
  "length (spans (handleChainEnd e out r s)) = length (spans s)"
  "sp_status (spans (handleChainEnd e out r s) ! j) = sp_status (spans s ! j)"
  "sp_exceptions (spans (handleChainEnd e out r s) ! j) = sp_exceptions (spans s ! j)"
  "sp_parent (spans (handleChainEnd e out r s) ! j) = sp_parent (spans s ! j)"
  by (simp_all add: handleChainEnd_def Let_def split: option.splits)

lemma handleToolEnd_frame [simp]:
  "spanMapping (handleToolEnd e out r s) = spanMapping s"
  "assoc_log (handleToolEnd e out r s) = assoc_log s"
  "length (spans (handleToolEnd e out r s)) = length (spans s)"
  "sp_status (spans (handleToolEnd e out r s) ! j) = sp_status (spans s ! j)"
  "sp_exceptions (spans (handleToolEnd e out r s) ! j) = sp_exceptions (spans s ! j)"
  "sp_parent (spans (handleToolEnd e out r s) ! j) = sp_parent (spans s ! j)"
  by (simp_all add: handleToolEnd_def Let_def split: option.splits)




lemma handleToolEnd_calls:
  assumes "\<not> suppress e" and "spanMapping s r = Some h" and "i < length (spans s)"
  shows "sp_end_calls (spans (handleToolEnd e out r s) ! i) =
           sp_end_calls (spans s ! i)
           + length (filter (\<lambda>c. map_option hspan (spanMapping s c) = Some i) (children h))
           + (if i = hspan h then 1 else 0)"
  using assms by (simp add: handleToolEnd_def Let_def endSpan_calls)

lemma handleError_calls:
  assumes "\<not> suppress e" and "spanMapping s r = Some h" and "i < length (spans s)"
    and "handleError e err r s = Inr s'"
  shows "sp_end_calls (spans s' ! i) =
           sp_end_calls (spans s ! i)
           + length (filter (\<lambda>c. map_option hspan (spanMapping s c) = Some i) (children h))
           + (if i = hspan h then 1 else 0)"
  using assms by (auto simp: handleError_live endSpan_calls split: if_splits)


lemma handleChainStart_mapping:
  "\<not> suppress e \<Longrightarrow>
   spanMapping (handleChainStart e chain inputs r p md s) =
     spanMapping (snd (createSpan e r p ''chain ${name}'' INTERNAL md s))"
  by (simp add: handleChainStart_def Let_def case_prod_unfold split: option.splits)

lemma handleToolStart_mapping:
  "\<not> suppress e \<Longrightarrow>
   spanMapping (handleToolStart e tool input r p md s) =
     spanMapping (snd (createSpan e r p ''execute_tool ${name}'' INTERNAL md s))"
  by (simp add: handleToolStart_def Let_def case_prod_unfold)

lemma started_facts:
  assumes "started r p s s'"
  shows "length (spans s') = Suc (length (spans s))"
    and "i < length (spans s) \<Longrightarrow> spans s' ! i = spans s ! i"
    and "sp_end_calls (spans s' ! length (spans s)) = 0"
    and "sp_status (spans s' ! length (spans s)) = UNSET"
    and "sp_exceptions (spans s' ! length (spans s)) = []"
  using assms by (simp_all add: started_def)

lemma demo_tree_facts:
  "spanMapping demo_tree ''p'' =
     Some \<lparr>hspan = 0, children = [''c1'', ''c2''], requestModel = JStr ''unknown''\<rparr>"
  "spanMapping demo_tree ''c1'' = Some \<lparr>hspan = 1, children = [], requestModel = JStr ''unknown''\<rparr>"
  "spanMapping demo_tree ''c2'' = Some \<lparr>hspan = 2, children = [''g''], requestModel = JStr ''unknown''\<rparr>"
  "length (spans demo_tree) = 4"
  "sp_end_calls (spans demo_tree ! 0) = 0"
  "sp_end_calls (spans demo_tree ! 1) = 1"
  "sp_end_calls (spans demo_tree ! 2) = 0"
  "sp_end_calls (spans demo_tree ! 3) = 0"
  "sp_exceptions (spans demo_tree ! 0) = []"
  "sp_status (spans demo_tree ! 0) = UNSET"
  "spanMapping demo_tree ''nobody'' = None"
proof -
  let ?t1 = "handleChainStart demo_env [(''name'', JStr ''c'')] (JObj []) ''p'' None None init_state"
  let ?t2 = "handleToolStart demo_env [(''name'', JStr ''t1'')] (JStr ''in'') ''c1'' (Some ''p'') None ?t1"
  let ?t3 = "handleToolStart demo_env [(''name'', JStr ''t2'')] (JStr ''in'') ''c2'' (Some ''p'') None ?t2"
  let ?t4 = "handleToolStart demo_env [(''name'', JStr ''g'')] (JStr ''in'') ''g'' (Some ''c2'') None ?t3"
  have e: "\<not> suppress demo_env" by (simp add: demo_env_def)
  have t: "demo_tree = handleToolEnd demo_env (JStr ''done'') ''c1'' ?t4"
    by (simp add: demo_tree_def)
  note s1 = started_facts [OF started_handleChainStart [OF e, of "''p''" None init_state
      "[(''name'', JStr ''c'')]" "JObj []" None]]
  note s2 = started_facts [OF started_handleToolStart [OF e, of "''c1''" "Some ''p''" ?t1
      "[(''name'', JStr ''t1'')]" "JStr ''in''" None]]
  note s3 = started_facts [OF started_handleToolStart [OF e, of "''c2''" "Some ''p''" ?t2
      "[(''name'', JStr ''t2'')]" "JStr ''in''" None]]
  note s4 = started_facts [OF started_handleToolStart [OF e, of "''g''" "Some ''c2''" ?t3
      "[(''name'', JStr ''g'')]" "JStr ''in''" None]]
  have l0: "length (spans init_state) = 0" by (simp add: init_state_def)
  have l1: "length (spans ?t1) = 1" using s1(1) l0 by simp
  have l2: "length (spans ?t2) = 2" using s2(1) l1 by simp
  have l3: "length (spans ?t3) = 3" using s3(1) l2 by simp
  have l4: "length (spans ?t4) = 4" using s4(1) l3 by simp
  have hm: "holderModelId [] = JStr ''unknown''"
    by (simp add: holderModelId_def obj_get_def)
  have m1: "spanMapping ?t1 =
      Map.empty(''p'' \<mapsto> \<lparr>hspan = 0, children = [], requestModel = JStr ''unknown''\<rparr>)"
    unfolding handleChainStart_mapping [OF e]
    by (rule ext) (simp add: createSpan_mapping liveParent_def init_state_def hm)
  have m2: "spanMapping ?t2 =
      Map.empty(''p'' \<mapsto> \<lparr>hspan = 0, children = [''c1''], requestModel = JStr ''unknown''\<rparr>,
                ''c1'' \<mapsto> \<lparr>hspan = 1, children = [], requestModel = JStr ''unknown''\<rparr>)"
    unfolding handleToolStart_mapping [OF e]
    by (rule ext) (simp add: createSpan_mapping liveParent_def m1 l1 hm)
  have m3: "spanMapping ?t3 =
      Map.empty(''p'' \<mapsto> \<lparr>hspan = 0, children = [''c1'', ''c2''], requestModel = JStr ''unknown''\<rparr>,
                ''c1'' \<mapsto> \<lparr>hspan = 1, children = [], requestModel = JStr ''unknown''\<rparr>,
                ''c2'' \<mapsto> \<lparr>hspan = 2, children = [], requestModel = JStr ''unknown''\<rparr>)"
    unfolding handleToolStart_mapping [OF e]
    by (rule ext) (simp add: createSpan_mapping liveParent_def m2 l2 hm)
  have m4: "spanMapping ?t4 =
      Map.empty(''p'' \<mapsto> \<lparr>hspan = 0, children = [''c1'', ''c2''], requestModel = JStr ''unknown''\<rparr>,
                ''c1'' \<mapsto> \<lparr>hspan = 1, children = [], requestModel = JStr ''unknown''\<rparr>,
                ''c2'' \<mapsto> \<lparr>hspan = 2, children = [''g''], requestModel = JStr ''unknown''\<rparr>,
                ''g'' \<mapsto> \<lparr>hspan = 3, children = [], requestModel = JStr ''unknown''\<rparr>)"
    unfolding handleToolStart_mapping [OF e]
    by (rule ext) (simp add: createSpan_mapping liveParent_def m3 l3 hm)
  have c0: "sp_end_calls (spans ?t4 ! 0) = 0" "sp_status (spans ?t4 ! 0) = UNSET"
    "sp_exceptions (spans ?t4 ! 0) = []"
    using s1(3,4,5) s2(2) [of 0] s3(2) [of 0] s4(2) [of 0] l0 l1 l2 l3 by simp_all
  have c1: "sp_end_calls (spans ?t4 ! 1) = 0"
    using s2(3) s3(2) [of 1] s4(2) [of 1] l1 l2 l3 by simp
  have c2: "sp_end_calls (spans ?t4 ! 2) = 0"
    using s3(3) s4(2) [of 2] l2 l3 by simp
  have c3: "sp_end_calls (spans ?t4 ! 3) = 0"
    using s4(3) l3 by simp
  have k: "spanMapping ?t4 ''c1'' = Some \<lparr>hspan = 1, children = [], requestModel = JStr ''unknown''\<rparr>"
    by (simp add: m4)
  show "spanMapping demo_tree ''p'' =
     Some \<lparr>hspan = 0, children = [''c1'', ''c2''], requestModel = JStr ''unknown''\<rparr>"
    and "spanMapping demo_tree ''c1'' = Some \<lparr>hspan = 1, children = [], requestModel = JStr ''unknown''\<rparr>"
    and "spanMapping demo_tree ''c2'' = Some \<lparr>hspan = 2, children = [''g''], requestModel = JStr ''unknown''\<rparr>"
    and "spanMapping demo_tree ''nobody'' = None"
    by (simp_all add: t m4)
  show "length (spans demo_tree) = 4" by (simp add: t l4)
  show "sp_exceptions (spans demo_tree ! 0) = []" and "sp_status (spans demo_tree ! 0) = UNSET"
    using c0 by (simp_all add: t)
  show "sp_end_calls (spans demo_tree ! 0) = 0"
    using handleToolEnd_calls [OF e k, of 0 "JStr ''done''"] c0 by (simp add: t l4)
  show "sp_end_calls (spans demo_tree ! 1) = 1"
    using handleToolEnd_calls [OF e k, of 1 "JStr ''done''"] c1 by (simp add: t l4)
  show "sp_end_calls (spans demo_tree ! 2) = 0"
    using handleToolEnd_calls [OF e k, of 2 "JStr ''done''"] c2 by (simp add: t l4)
  show "sp_end_calls (spans demo_tree ! 3) = 0"
    using handleToolEnd_calls [OF e k, of 3 "JStr ''done''"] c3 by (simp add: t l4)
qed

section \<open>Cascading close\<close>

text \<open>
  C3.  Ending the run \<open>runId\<close> calls \<open>end()\<close> on a span once for every identifier in the
  children list of the run's record whose own record holds that span, and once more if
  it is the run's own span.  So the run's span and the span of every listed child that
  still has a record are ended; a span that belongs neither to the run nor to a listed
  child (a grandchild's span) is left exactly as it was; a listed child is ended
  whether or not it was ended before, and a listed identifier without a record is
  skipped.  \<open>endSpan\<close> has no failing branch.
\<close>

theorem endSpan_cascades_one_level:
  assumes "spanMapping s runId = Some h" and "i < length (spans s)"
  shows "sp_end_calls (spans (endSpan (hspan h) runId s) ! i) =
           sp_end_calls (spans s ! i)
           + length (filter (\<lambda>c. map_option hspan (spanMapping s c) = Some i) (children h))
           + (if i = hspan h then 1 else 0)
         \<and> (i \<noteq> hspan h \<and> (\<forall>c \<in> set (children h). map_option hspan (spanMapping s c) \<noteq> Some i)
              \<longrightarrow> spans (endSpan (hspan h) runId s) ! i = spans s ! i)
         \<and> spanMapping (endSpan (hspan h) runId s) = spanMapping s
         \<and> length (spans (endSpan (hspan h) runId s)) = length (spans s)"
proof -
  have calls: "sp_end_calls (spans (endSpan (hspan h) runId s) ! i) =
           sp_end_calls (spans s ! i)
           + length (filter (\<lambda>c. map_option hspan (spanMapping s c) = Some i) (children h))
           + (if i = hspan h then 1 else 0)"
    using assms by (simp add: endSpan_calls)
  have same: "spans (endSpan (hspan h) runId s) ! i = spans s ! i"
    if "i \<noteq> hspan h" and "\<forall>c \<in> set (children h). map_option hspan (spanMapping s c) \<noteq> Some i"
  proof -
    have none: "filter (\<lambda>c. map_option hspan (spanMapping s c) = Some i) (children h) = []"
      using that(2) by (simp add: filter_empty_conv)
    with calls that(1)
    have "sp_end_calls (spans (endSpan (hspan h) runId s) ! i) = sp_end_calls (spans s ! i)"
      by simp
    moreover have "sp_calls (spans (endSpan (hspan h) runId s) ! i) = sp_calls (spans s ! i)"
      using assms that(1) none by (simp add: endSpan_log)
    ultimately show ?thesis
      by (intro otel_span.equality) simp_all
  qed
  show ?thesis using calls same by simp
qed

theorem endSpan_cascades_one_level_witness:
  "spanMapping demo_tree ''p'' =
     Some \<lparr>hspan = 0, children = [''c1'', ''c2''], requestModel = JStr ''unknown''\<rparr>
   \<and> length (spans demo_tree) = 4
   \<and> sp_end_calls (spans demo_tree ! 1) = 1
   \<and> sp_end_calls (spans (endSpan 0 ''p'' demo_tree) ! 0) = 1
   \<and> sp_end_calls (spans (endSpan 0 ''p'' demo_tree) ! 1) = 2
   \<and> sp_end_calls (spans (endSpan 0 ''p'' demo_tree) ! 2) = 1
   \<and> spans (endSpan 0 ''p'' demo_tree) ! 3 = spans demo_tree ! 3"
proof -
  let ?h = "\<lparr>hspan = 0, children = [''c1'', ''c2''], requestModel = JStr ''unknown''\<rparr>"
  have hp: "spanMapping demo_tree ''p'' = Some ?h"
    by (rule demo_tree_facts)
  have len: "length (spans demo_tree) = 4"
    by (rule demo_tree_facts)
  note kids = demo_tree_facts(2,3)
  note before = demo_tree_facts(5-7)
  have i0: "(0::nat) < length (spans demo_tree)" and i1: "(1::nat) < length (spans demo_tree)"
    and i2: "(2::nat) < length (spans demo_tree)" and i3: "(3::nat) < length (spans demo_tree)"
    using len by simp_all
  show ?thesis
    using endSpan_cascades_one_level [OF hp i0] endSpan_cascades_one_level [OF hp i1]
      endSpan_cascades_one_level [OF hp i2] endSpan_cascades_one_level [OF hp i3]
      hp len kids before
    by simp
qed

section \<open>The attributes set by the model handlers\<close>

lemma createSpan_length:
  "length (spans (snd (createSpan e r p nm k md s))) = Suc (length (spans s))"
  by (simp add: createSpan_spans)

lemma createSpan_new_attributes:
  "sp_attributes (spans (snd (createSpan e r p nm k md s)) ! length (spans s)) = Map.empty"
  by (simp add: createSpan_spans)

lemma handleLLMStart_attributes:
  assumes "\<not> suppress e"
  shows "sp_attributes (spans (handleLLMStart e llm r p ep md s) ! length (spans s)) =
     (let kw = (case ep of None \<Rightarrow> [] | Some k \<Rightarrow> k) in
      set_if_present GEN_AI_OPERATION_NAME (JStr ''text_completion'')
       (set_if_present GEN_AI_SYSTEM (obj_get llm ''name'')
         (set_if_present GEN_AI_REQUEST_TOP_P (js_get (requestParams_of kw) ''top_p'')
           (set_if_present GEN_AI_REQUEST_TEMPERATURE (js_get (requestParams_of kw) ''temperature'')
             (set_if_present GEN_AI_REQUEST_MAX_TOKENS
                (js_or (js_get (requestParams_of kw) ''max_tokens'')
                       (js_get (requestParams_of kw) ''max_new_tokens''))
               (set_if_present GEN_AI_RESPONSE_MODEL (resolvedModel kw)
                 (set_if_present GEN_AI_REQUEST_MODEL (resolvedModel kw)
                   (set_if_present GEN_AI_OPERATION_NAME (JStr CHAT) Map.empty))))))))"
  using assms
  by (simp add: handleLLMStart_def Let_def case_prod_unfold setSpanAttribute_attrs
        setRequestParams_attributes createSpan_length createSpan_new_attributes)

lemma handleChatModelStart_attributes:
  assumes "\<not> suppress e"
  shows "sp_attributes (spans (handleChatModelStart e llm r p ep md s) ! length (spans s)) =
     (case ep of
        None \<Rightarrow> Map.empty
      | Some kw \<Rightarrow>
         set_if_present GEN_AI_REQUEST_TOP_P (js_get (requestParams_of kw) ''top_p'')
           (set_if_present GEN_AI_REQUEST_TEMPERATURE (js_get (requestParams_of kw) ''temperature'')
             (set_if_present GEN_AI_REQUEST_MAX_TOKENS
                (js_or (js_get (requestParams_of kw) ''max_tokens'')
                       (js_get (requestParams_of kw) ''max_new_tokens''))
               (set_if_present GEN_AI_RESPONSE_MODEL (resolvedModel kw)
                 (set_if_present GEN_AI_REQUEST_MODEL (resolvedModel kw) Map.empty)))))"
  using assms
  by (simp add: handleChatModelStart_def Let_def case_prod_unfold
        setRequestParams_attributes createSpan_length createSpan_new_attributes
        split: option.splits)

lemma handleLLMEnd_attributes:
  assumes "\<not> suppress e" and "spanMapping s r = Some h" and "hspan h < length (spans s)"
  shows "sp_attributes (spans (handleLLMEnd e out r s) ! hspan h) =
     (let llmOutput = obj_get out ''llmOutput'';
          modelName = js_or (js_get llmOutput ''model_name'') (js_get llmOutput ''model_id'');
          id = js_get llmOutput ''id'';
          tokenUsage = js_or (js_get llmOutput ''token_usage'') (js_get llmOutput ''usage'');
          a0 = sp_attributes (spans s ! hspan h);
          a1 = (if truthy modelName then set_if_present GEN_AI_RESPONSE_MODEL modelName a0 else a0);
          a2 = (if id \<noteq> JUndefined \<and> id \<noteq> JStr [] then set_if_present GEN_AI_RESPONSE_ID id a1 else a1)
      in if truthy llmOutput then
           (if truthy tokenUsage then
              set_if_present GEN_AI_USAGE_OUTPUT_TOKENS (completionTokens tokenUsage)
                (set_if_present GEN_AI_USAGE_INPUT_TOKENS (promptTokens tokenUsage) a2)
            else a2)
         else a0)"
  using assms
  by (simp add: handleLLMEnd_def Let_def setSpanAttribute_attrs)


lemma demo_llm_r:
  "spanMapping demo_llm ''r'' = Some \<lparr>hspan = 0, children = [], requestModel = JStr ''unknown''\<rparr>"
  by (simp add: demo_llm_def handleLLMStart_def Let_def case_prod_unfold setRequestParams_mapping
        createSpan_mapping demo_env_def init_state_def holderModelId_def obj_get_def
        findModel.simps js_or_def)

lemma demo_llm_length: "length (spans demo_llm) = 1"
  using started_handleLLMStart [of demo_env "''r''" None init_state]
  by (simp add: demo_llm_def started_def demo_env_def init_state_def)

section \<open>Attribute omission\<close>

text \<open>
  C6.  \<open>setSpanAttribute\<close> sets the attribute to the candidate value exactly when the
  value is none of \<open>undefined\<close>, \<open>null\<close> and the empty string, and otherwise leaves
  the state as it is.  For a model start event with payload \<open>kw\<close> the new span carries
  \<open>gen_ai.request.temperature\<close> (\<open>gen_ai.request.top_p\<close>) exactly when the value of
  \<open>temperature\<close> (\<open>top_p\<close>) in the parameters object is such a value, and then with that
  value.
\<close>

theorem attribute_set_iff_present:
  "(sp < length (spans s) \<longrightarrow>
      sp_attributes (spans (setSpanAttribute sp nm v s) ! sp) nm =
        (if v \<noteq> JUndefined \<and> v \<noteq> JNull \<and> v \<noteq> JStr [] then Some v
         else sp_attributes (spans s ! sp) nm))
   \<and> (v = JUndefined \<or> v = JNull \<or> v = JStr [] \<longrightarrow> setSpanAttribute sp nm v s = s)
   \<and> (\<not> suppress e \<longrightarrow>
        sp_attributes (spans (handleLLMStart e llm r p (Some kw) md s) ! length (spans s))
            GEN_AI_REQUEST_TEMPERATURE =
          (if present (js_get (requestParams_of kw) ''temperature'')
           then Some (js_get (requestParams_of kw) ''temperature'') else None)
        \<and> sp_attributes (spans (handleLLMStart e llm r p (Some kw) md s) ! length (spans s))
            GEN_AI_REQUEST_TOP_P =
          (if present (js_get (requestParams_of kw) ''top_p'')
           then Some (js_get (requestParams_of kw) ''top_p'') else None)
        \<and> sp_attributes (spans (handleChatModelStart e llm r p (Some kw) md s) ! length (spans s))
            GEN_AI_REQUEST_TEMPERATURE =
          (if present (js_get (requestParams_of kw) ''temperature'')
           then Some (js_get (requestParams_of kw) ''temperature'') else None)
        \<and> sp_attributes (spans (handleChatModelStart e llm r p (Some kw) md s) ! length (spans s))
            GEN_AI_REQUEST_TOP_P =
          (if present (js_get (requestParams_of kw) ''top_p'')
           then Some (js_get (requestParams_of kw) ''top_p'') else None))"
proof (intro conjI impI)
  assume "sp < length (spans s)"
  then show "sp_attributes (spans (setSpanAttribute sp nm v s) ! sp) nm =
        (if v \<noteq> JUndefined \<and> v \<noteq> JNull \<and> v \<noteq> JStr [] then Some v
         else sp_attributes (spans s ! sp) nm)"
    by (simp add: setSpanAttribute_attributes)
next
  assume "v = JUndefined \<or> v = JNull \<or> v = JStr []"
  then show "setSpanAttribute sp nm v s = s"
    by (auto simp: setSpanAttribute_def)
next
  assume e: "\<not> suppress e"
  show "sp_attributes (spans (handleLLMStart e llm r p (Some kw) md s) ! length (spans s))
            GEN_AI_REQUEST_TEMPERATURE =
          (if present (js_get (requestParams_of kw) ''temperature'')
           then Some (js_get (requestParams_of kw) ''temperature'') else None)"
    by (simp add: handleLLMStart_attributes [OF e] set_if_present_def)
  show "sp_attributes (spans (handleLLMStart e llm r p (Some kw) md s) ! length (spans s))
            GEN_AI_REQUEST_TOP_P =
          (if present (js_get (requestParams_of kw) ''top_p'')
           then Some (js_get (requestParams_of kw) ''top_p'') else None)"
    by (simp add: handleLLMStart_attributes [OF e] set_if_present_def)
  show "sp_attributes (spans (handleChatModelStart e llm r p (Some kw) md s) ! length (spans s))
            GEN_AI_REQUEST_TEMPERATURE =
          (if present (js_get (requestParams_of kw) ''temperature'')
           then Some (js_get (requestParams_of kw) ''temperature'') else None)"
    by (simp add: handleChatModelStart_attributes [OF e] set_if_present_def)
  show "sp_attributes (spans (handleChatModelStart e llm r p (Some kw) md s) ! length (spans s))
            GEN_AI_REQUEST_TOP_P =
          (if present (js_get (requestParams_of kw) ''top_p'')
           then Some (js_get (requestParams_of kw) ''top_p'') else None)"
    by (simp add: handleChatModelStart_attributes [OF e] set_if_present_def)
qed

theorem attribute_set_iff_present_witness:
  "(0::nat) < length (spans demo_llm)
   \<and> sp_attributes (spans (setSpanAttribute 0 ''k'' (JNum (Fin 0)) demo_llm) ! 0) ''k'' = Some (JNum (Fin 0))
   \<and> setSpanAttribute 0 ''k'' (JStr []) demo_llm = demo_llm
   \<and> \<not> suppress demo_env
   \<and> sp_attributes (spans (handleLLMStart demo_env [] ''r'' None
          (Some [(''temperature'', JNull), (''top_p'', JUndefined)]) None init_state) ! 0)
        GEN_AI_REQUEST_TEMPERATURE = None
   \<and> sp_attributes (spans (handleLLMStart demo_env [] ''r'' None
          (Some [(''temperature'', JNull), (''top_p'', JUndefined)]) None init_state) ! 0)
        GEN_AI_REQUEST_TOP_P = None
   \<and> sp_attributes (spans (handleChatModelStart demo_env [] ''r'' None
          (Some [(''temperature'', JNum (Fin (7 / 10)))]) None init_state) ! 0)
        GEN_AI_REQUEST_TEMPERATURE = Some (JNum (Fin (7 / 10)))"
proof -
  have len: "(0::nat) < length (spans demo_llm)"
    by (simp add: demo_llm_length)
  have e: "\<not> suppress demo_env"
    by (simp add: demo_env_def)
  have l0: "length (spans init_state) = 0"
    by (simp add: init_state_def)
  have p1: "requestParams_of [(''temperature'', JNull), (''top_p'', JUndefined)]
              = JObj [(''temperature'', JNull), (''top_p'', JUndefined)]"
    and p2: "requestParams_of [(''temperature'', JNum (Fin (7 / 10)))]
              = JObj [(''temperature'', JNum (Fin (7 / 10)))]"
    by (simp_all add: requestParams_of_def obj_get_def)
  have g1: "present (JNum (Fin (7 / 10)))" "\<not> present JNull" "\<not> present JUndefined"
    by (simp_all add: present_def)
  have t1: "js_get (JObj [(''temperature'', JNull), (''top_p'', JUndefined)]) ''temperature'' = JNull"
    and t2: "js_get (JObj [(''temperature'', JNull), (''top_p'', JUndefined)]) ''top_p'' = JUndefined"
    and t3: "js_get (JObj [(''temperature'', JNum (Fin (7 / 10)))]) ''temperature'' = JNum (Fin (7 / 10))"
    by (simp_all add: obj_get_def)
  have a: "sp_attributes (spans (setSpanAttribute 0 ''k'' (JNum (Fin 0)) demo_llm) ! 0) ''k''
             = Some (JNum (Fin 0))"
    using len attribute_set_iff_present [where sp = 0 and s = demo_llm and nm = "''k''"
        and v = "JNum (Fin 0)"]
    by simp
  have b: "setSpanAttribute 0 ''k'' (JStr []) demo_llm = demo_llm"
    using attribute_set_iff_present [where sp = 0 and s = demo_llm and nm = "''k''"
        and v = "JStr []"]
    by simp
  have c: "sp_attributes (spans (handleLLMStart demo_env [] ''r'' None
          (Some [(''temperature'', JNull), (''top_p'', JUndefined)]) None init_state) ! 0)
        GEN_AI_REQUEST_TEMPERATURE = None
      \<and> sp_attributes (spans (handleLLMStart demo_env [] ''r'' None
          (Some [(''temperature'', JNull), (''top_p'', JUndefined)]) None init_state) ! 0)
        GEN_AI_REQUEST_TOP_P = None"
    using e attribute_set_iff_present [where s = init_state and e = demo_env and llm = "[]"
        and r = "''r''" and p = None
        and kw = "[(''temperature'', JNull), (''top_p'', JUndefined)]" and md = None]
    by (simp only: l0 p1 t1 t2 g1 if_False simp_thms)
  have d: "sp_attributes (spans (handleChatModelStart demo_env [] ''r'' None
          (Some [(''temperature'', JNum (Fin (7 / 10)))]) None init_state) ! 0)
        GEN_AI_REQUEST_TEMPERATURE = Some (JNum (Fin (7 / 10)))"
    using e attribute_set_iff_present [where s = init_state and e = demo_env and llm = "[]"
        and r = "''r''" and p = None
        and kw = "[(''temperature'', JNum (Fin (7 / 10)))]" and md = None]
    by (simp only: l0 p2 t3 g1 if_True simp_thms)
  from len e a b c d show ?thesis by blast
qed

section \<open>Token usage\<close>

lemma promptTokens_first_truthy:
  "promptTokens tu =
     (if truthy (js_get tu ''prompt_tokens'') then js_get tu ''prompt_tokens''
      else if truthy (js_get tu ''input_token_count'') then js_get tu ''input_token_count''
      else js_get tu ''input_tokens'')"
  by (simp add: promptTokens_def js_or_def)

lemma completionTokens_first_truthy:
  "completionTokens tu =
     (if truthy (js_get tu ''completion_tokens'') then js_get tu ''completion_tokens''
      else if truthy (js_get tu ''generated_token_count'') then js_get tu ''generated_token_count''
      else js_get tu ''output_tokens'')"
  by (simp add: completionTokens_def js_or_def)

lemma handleLLMEnd_token_attributes:
  assumes "\<not> suppress e" and "spanMapping s r = Some h" and "hspan h < length (spans s)"
    and "truthy (obj_get out ''llmOutput'')"
    and "tu = js_or (js_get (obj_get out ''llmOutput'') ''token_usage'')
                    (js_get (obj_get out ''llmOutput'') ''usage'')"
    and "truthy tu"
  shows "sp_attributes (spans (handleLLMEnd e out r s) ! hspan h) GEN_AI_USAGE_INPUT_TOKENS =
           (if present (promptTokens tu) then Some (promptTokens tu)
            else sp_attributes (spans s ! hspan h) GEN_AI_USAGE_INPUT_TOKENS)"
    and "sp_attributes (spans (handleLLMEnd e out r s) ! hspan h) GEN_AI_USAGE_OUTPUT_TOKENS =
           (if present (completionTokens tu) then Some (completionTokens tu)
            else sp_attributes (spans s ! hspan h) GEN_AI_USAGE_OUTPUT_TOKENS)"
  using assms(4-6)
  by (simp_all add: handleLLMEnd_attributes [OF assms(1-3)] Let_def set_if_present_def)

text \<open>
  C7.  The input token count is the first truthy one of \<open>prompt_tokens\<close>,
  \<open>input_token_count\<close> and \<open>input_tokens\<close> of the usage block (the last one when none is
  truthy), the output token count likewise of \<open>completion_tokens\<close>,
  \<open>generated_token_count\<close> and \<open>output_tokens\<close>; on the end event of a live run whose
  output carries a usage block they become the attributes \<open>gen_ai.usage.input_tokens\<close> and
  \<open>gen_ai.usage.output_tokens\<close> of the run's span.
\<close>

theorem token_usage_first_match:
  assumes "\<not> suppress e" and "spanMapping s r = Some h" and "hspan h < length (spans s)"
    and "truthy (obj_get out ''llmOutput'')"
    and "tu = js_or (js_get (obj_get out ''llmOutput'') ''token_usage'')
                    (js_get (obj_get out ''llmOutput'') ''usage'')"
    and "truthy tu"
  shows "promptTokens tu =
           (if truthy (js_get tu ''prompt_tokens'') then js_get tu ''prompt_tokens''
            else if truthy (js_get tu ''input_token_count'') then js_get tu ''input_token_count''
            else js_get tu ''input_tokens'')
       \<and> completionTokens tu =
           (if truthy (js_get tu ''completion_tokens'') then js_get tu ''completion_tokens''
            else if truthy (js_get tu ''generated_token_count'') then js_get tu ''generated_token_count''
            else js_get tu ''output_tokens'')
       \<and> sp_attributes (spans (handleLLMEnd e out r s) ! hspan h) GEN_AI_USAGE_INPUT_TOKENS =
           (if present (promptTokens tu) then Some (promptTokens tu)
            else sp_attributes (spans s ! hspan h) GEN_AI_USAGE_INPUT_TOKENS)
       \<and> sp_attributes (spans (handleLLMEnd e out r s) ! hspan h) GEN_AI_USAGE_OUTPUT_TOKENS =
           (if present (completionTokens tu) then Some (completionTokens tu)
            else sp_attributes (spans s ! hspan h) GEN_AI_USAGE_OUTPUT_TOKENS)"
  using handleLLMEnd_token_attributes [OF assms]
  by (simp add: promptTokens_first_truthy completionTokens_first_truthy)

theorem token_usage_first_match_witness:
  "\<not> suppress demo_env
   \<and> spanMapping demo_llm ''r'' = Some \<lparr>hspan = 0, children = [], requestModel = JStr ''unknown''\<rparr>
   \<and> (0::nat) < length (spans demo_llm)
   \<and> sp_attributes (spans (handleLLMEnd demo_env
         [(''llmOutput'', JObj [(''usage'', JObj [(''input_tokens'', JNum (Fin 12)),
                                                  (''output_tokens'', JNum (Fin 34))])])]
         ''r'' demo_llm) ! 0) GEN_AI_USAGE_INPUT_TOKENS = Some (JNum (Fin 12))
   \<and> sp_attributes (spans (handleLLMEnd demo_env
         [(''llmOutput'', JObj [(''usage'', JObj [(''input_tokens'', JNum (Fin 12)),
                                                  (''output_tokens'', JNum (Fin 34))])])]
         ''r'' demo_llm) ! 0) GEN_AI_USAGE_OUTPUT_TOKENS = Some (JNum (Fin 34))
   \<and> sp_attributes (spans (handleLLMEnd demo_env
         [(''llmOutput'', JObj [(''token_usage'', JObj [(''prompt_tokens'', JNum (Fin 5))])])]
         ''r'' demo_llm) ! 0) GEN_AI_USAGE_INPUT_TOKENS = Some (JNum (Fin 5))"
proof -
  let ?h = "\<lparr>hspan = 0, children = [], requestModel = JStr ''unknown''\<rparr>"
  let ?u1 = "JObj [(''input_tokens'', JNum (Fin 12)), (''output_tokens'', JNum (Fin 34))]"
  let ?u2 = "JObj [(''prompt_tokens'', JNum (Fin 5))]"
  let ?o1 = "[(''llmOutput'', JObj [(''usage'', ?u1)])]"
  let ?o2 = "[(''llmOutput'', JObj [(''token_usage'', ?u2)])]"
  have e: "\<not> suppress demo_env" by (simp add: demo_env_def)
  have len: "hspan ?h < length (spans demo_llm)" by (simp add: demo_llm_length)
  have t1: "truthy (obj_get ?o1 ''llmOutput'')" and t2: "truthy (obj_get ?o2 ''llmOutput'')"
    by (simp_all add: obj_get_def)
  have u1: "?u1 = js_or (js_get (obj_get ?o1 ''llmOutput'') ''token_usage'')
                        (js_get (obj_get ?o1 ''llmOutput'') ''usage'')"
    and u2: "?u2 = js_or (js_get (obj_get ?o2 ''llmOutput'') ''token_usage'')
                        (js_get (obj_get ?o2 ''llmOutput'') ''usage'')"
    by (simp_all add: obj_get_def js_or_def)
  have tu: "truthy ?u1" "truthy ?u2" by simp_all
  have p1: "promptTokens ?u1 = JNum (Fin 12)" and c1: "completionTokens ?u1 = JNum (Fin 34)"
    and p2: "promptTokens ?u2 = JNum (Fin 5)"
    by (simp_all add: promptTokens_def completionTokens_def js_or_def obj_get_def)
  have g: "present (JNum (Fin 12))" "present (JNum (Fin 34))" "present (JNum (Fin 5))"
    by (simp_all add: present_def)
  show ?thesis
    using e demo_llm_r len
      token_usage_first_match [OF e demo_llm_r len t1 u1 tu(1)]
      token_usage_first_match [OF e demo_llm_r len t2 u2 tu(2)]
    by (simp add: p1 c1 p2 g)
qed


section \<open>Falsy values in the synonym search\<close>

lemma demo_llm_no_tokens:
  "sp_attributes (spans demo_llm ! 0) GEN_AI_USAGE_INPUT_TOKENS = None"
proof -
  have e: "\<not> suppress demo_env" by (simp add: demo_env_def)
  show ?thesis
    using handleLLMStart_attributes [OF e, of "[(''name'', JStr ''openai'')]" "''r''" None
      "Some [(''temperature'', JNum (Fin (7 / 10))), (''top_p'', JUndefined)]" None init_state]
    by (simp add: demo_llm_def init_state_def set_if_present_def Let_def)
qed

text \<open>
  C10, as stated, fails: in a usage block whose three input synonyms are all \<open>0\<close>, every
  synonym is falsy, and still the end event sets \<open>gen_ai.usage.input_tokens\<close>, to \<open>0\<close>:
  \<open>a || b || c\<close> yields \<open>c\<close> when \<open>a\<close> and \<open>b\<close> are falsy, whatever \<open>c\<close> is.
\<close>

theorem all_synonyms_falsy_counterexample:
  "\<not> truthy (JNum (Fin 0))
   \<and> sp_attributes (spans demo_llm ! 0) GEN_AI_USAGE_INPUT_TOKENS = None
   \<and> sp_attributes (spans (handleLLMEnd demo_env
         [(''llmOutput'', JObj [(''token_usage'',
            JObj [(''prompt_tokens'', JNum (Fin 0)), (''input_token_count'', JNum (Fin 0)),
                  (''input_tokens'', JNum (Fin 0))])])]
         ''r'' demo_llm) ! 0) GEN_AI_USAGE_INPUT_TOKENS = Some (JNum (Fin 0))"
proof -
  let ?h = "\<lparr>hspan = 0, children = [], requestModel = JStr ''unknown''\<rparr>"
  let ?u = "JObj [(''prompt_tokens'', JNum (Fin 0)), (''input_token_count'', JNum (Fin 0)),
                  (''input_tokens'', JNum (Fin 0))]"
  let ?o = "[(''llmOutput'', JObj [(''token_usage'', ?u)])]"
  have e: "\<not> suppress demo_env" by (simp add: demo_env_def)
  have len: "hspan ?h < length (spans demo_llm)" by (simp add: demo_llm_length)
  have t: "truthy (obj_get ?o ''llmOutput'')" by (simp add: obj_get_def)
  have u: "?u = js_or (js_get (obj_get ?o ''llmOutput'') ''token_usage'')
                      (js_get (obj_get ?o ''llmOutput'') ''usage'')"
    by (simp add: obj_get_def js_or_def)
  have tu: "truthy ?u" by simp
  have p: "promptTokens ?u = JNum (Fin 0)"
    by (simp add: promptTokens_def js_or_def obj_get_def)
  have g: "present (JNum (Fin 0))" by (simp add: present_def)
  show ?thesis
    using handleLLMEnd_token_attributes(1) [OF e demo_llm_r len t u tu] demo_llm_no_tokens
    by (simp add: p g)
qed

text \<open>
  C10, amended.  A falsy synonym is passed over: with a falsy \<open>max_tokens\<close> the candidate
  for \<open>gen_ai.request.max_tokens\<close> is \<open>max_new_tokens\<close>, and with a falsy \<open>prompt_tokens\<close>
  (\<open>completion_tokens\<close>) the search goes on to the next synonym.  When every synonym is
  falsy the candidate is the value of the last synonym, which the attribute guard then
  judges: the attribute is set unless that value is \<open>undefined\<close>, \<open>null\<close> or the empty
  string (so a last synonym of \<open>0\<close> is set).  The guard itself accepts \<open>0\<close>.
\<close>

theorem falsy_synonym_falls_through:
  "(\<not> suppress e \<and> \<not> truthy (js_get (requestParams_of kw) ''max_tokens'') \<longrightarrow>
      sp_attributes (spans (handleLLMStart e llm r p (Some kw) md s) ! length (spans s))
          GEN_AI_REQUEST_MAX_TOKENS =
        (if present (js_get (requestParams_of kw) ''max_new_tokens'')
         then Some (js_get (requestParams_of kw) ''max_new_tokens'') else None))
   \<and> (\<not> truthy (js_get tu ''prompt_tokens'') \<longrightarrow>
        promptTokens tu = js_or (js_get tu ''input_token_count'') (js_get tu ''input_tokens''))
   \<and> (\<not> truthy (js_get tu ''completion_tokens'') \<longrightarrow>
        completionTokens tu = js_or (js_get tu ''generated_token_count'') (js_get tu ''output_tokens''))
   \<and> (\<not> truthy (js_get tu ''prompt_tokens'') \<and> \<not> truthy (js_get tu ''input_token_count'')
        \<and> \<not> truthy (js_get tu ''input_tokens'') \<longrightarrow> promptTokens tu = js_get tu ''input_tokens'')
   \<and> (\<not> truthy (js_get tu ''completion_tokens'') \<and> \<not> truthy (js_get tu ''generated_token_count'')
        \<and> \<not> truthy (js_get tu ''output_tokens'') \<longrightarrow> completionTokens tu = js_get tu ''output_tokens'')
   \<and> (\<not> suppress e \<and> spanMapping s' r' = Some h \<and> hspan h < length (spans s')
        \<and> truthy (obj_get out ''llmOutput'')
        \<and> tu = js_or (js_get (obj_get out ''llmOutput'') ''token_usage'')
                     (js_get (obj_get out ''llmOutput'') ''usage'')
        \<and> truthy tu
        \<and> \<not> truthy (js_get tu ''prompt_tokens'') \<and> \<not> truthy (js_get tu ''input_token_count'')
        \<and> \<not> truthy (js_get tu ''input_tokens'') \<longrightarrow>
        sp_attributes (spans (handleLLMEnd e out r' s') ! hspan h) GEN_AI_USAGE_INPUT_TOKENS =
          (if present (js_get tu ''input_tokens'') then Some (js_get tu ''input_tokens'')
           else sp_attributes (spans s' ! hspan h) GEN_AI_USAGE_INPUT_TOKENS))
   \<and> \<not> truthy (JNum (Fin 0)) \<and> present (JNum (Fin 0))"
proof (intro conjI impI)
  assume "\<not> suppress e \<and> \<not> truthy (js_get (requestParams_of kw) ''max_tokens'')"
  then show "sp_attributes (spans (handleLLMStart e llm r p (Some kw) md s) ! length (spans s))
          GEN_AI_REQUEST_MAX_TOKENS =
        (if present (js_get (requestParams_of kw) ''max_new_tokens'')
         then Some (js_get (requestParams_of kw) ''max_new_tokens'') else None)"
    by (simp add: handleLLMStart_attributes set_if_present_def js_or_def)
next
  assume a: "\<not> suppress e \<and> spanMapping s' r' = Some h \<and> hspan h < length (spans s')
        \<and> truthy (obj_get out ''llmOutput'')
        \<and> tu = js_or (js_get (obj_get out ''llmOutput'') ''token_usage'')
                     (js_get (obj_get out ''llmOutput'') ''usage'')
        \<and> truthy tu
        \<and> \<not> truthy (js_get tu ''prompt_tokens'') \<and> \<not> truthy (js_get tu ''input_token_count'')
        \<and> \<not> truthy (js_get tu ''input_tokens'')"
  from a have f: "\<not> truthy (js_get tu ''prompt_tokens'')"
      "\<not> truthy (js_get tu ''input_token_count'')" by blast+
  have pt: "promptTokens tu = js_get tu ''input_tokens''"
    unfolding promptTokens_first_truthy using f by (simp only: if_False)
  from a have h1: "\<not> suppress e" and h2: "spanMapping s' r' = Some h"
    and h3: "hspan h < length (spans s')" and h4: "truthy (obj_get out ''llmOutput'')"
    and h5: "tu = js_or (js_get (obj_get out ''llmOutput'') ''token_usage'')
                     (js_get (obj_get out ''llmOutput'') ''usage'')"
    and h6: "truthy tu" by blast+
  from handleLLMEnd_token_attributes(1) [OF h1 h2 h3 h4 h5 h6]
  show "sp_attributes (spans (handleLLMEnd e out r' s') ! hspan h) GEN_AI_USAGE_INPUT_TOKENS =
          (if present (js_get tu ''input_tokens'') then Some (js_get tu ''input_tokens'')
           else sp_attributes (spans s' ! hspan h) GEN_AI_USAGE_INPUT_TOKENS)"
    by (simp only: pt)
qed (simp_all add: promptTokens_first_truthy completionTokens_first_truthy js_or_def present_def)


theorem falsy_synonym_falls_through_witness:
  "\<not> suppress demo_env
   \<and> \<not> truthy (js_get (requestParams_of [(''max_tokens'', JNum (Fin 0)),
                                          (''max_new_tokens'', JNum (Fin 256))]) ''max_tokens'')
   \<and> sp_attributes (spans (handleLLMStart demo_env [] ''q'' None
          (Some [(''max_tokens'', JNum (Fin 0)), (''max_new_tokens'', JNum (Fin 256))]) None
          init_state) ! 0) GEN_AI_REQUEST_MAX_TOKENS = Some (JNum (Fin 256))
   \<and> \<not> truthy (js_get (JObj [(''prompt_tokens'', JNum (Fin 0))]) ''prompt_tokens'')
   \<and> \<not> truthy (js_get (JObj [(''prompt_tokens'', JNum (Fin 0))]) ''input_token_count'')
   \<and> \<not> truthy (js_get (JObj [(''prompt_tokens'', JNum (Fin 0))]) ''input_tokens'')
   \<and> promptTokens (JObj [(''prompt_tokens'', JNum (Fin 0))]) = JUndefined
   \<and> spanMapping demo_llm ''r'' = Some \<lparr>hspan = 0, children = [], requestModel = JStr ''unknown''\<rparr>
   \<and> (0::nat) < length (spans demo_llm)
   \<and> sp_attributes (spans (handleLLMEnd demo_env
         [(''llmOutput'', JObj [(''token_usage'', JObj [(''prompt_tokens'', JNum (Fin 0))])])]
         ''r'' demo_llm) ! 0) GEN_AI_USAGE_INPUT_TOKENS = None"
proof -
  let ?kw = "[(''max_tokens'', JNum (Fin 0)), (''max_new_tokens'', JNum (Fin 256))]"
  let ?tu = "JObj [(''prompt_tokens'', JNum (Fin 0))]"
  let ?out = "[(''llmOutput'', JObj [(''token_usage'', ?tu)])]"
  let ?h = "\<lparr>hspan = 0, children = [], requestModel = JStr ''unknown''\<rparr>"
  note T = falsy_synonym_falls_through [where e = demo_env and kw = ?kw and llm = "[]"
      and r = "''q''" and p = None and md = None and s = init_state and tu = ?tu
      and s' = demo_llm and r' = "''r''" and h = ?h and out = ?out]
  have e: "\<not> suppress demo_env" by (simp add: demo_env_def)
  have rp: "requestParams_of ?kw = JObj ?kw"
    by (simp add: requestParams_of_def obj_get_def)
  have len: "hspan ?h < length (spans demo_llm)" by (simp add: demo_llm_length)
  have t: "truthy (obj_get ?out ''llmOutput'')" by (simp add: obj_get_def)
  have u: "?tu = js_or (js_get (obj_get ?out ''llmOutput'') ''token_usage'')
                       (js_get (obj_get ?out ''llmOutput'') ''usage'')"
    by (simp add: obj_get_def js_or_def)
  have tu: "truthy ?tu" by simp
  have g: "present (JNum (Fin 256))" "\<not> present JUndefined" by (simp_all add: present_def)
  have l0: "length (spans init_state) = 0" by (simp add: init_state_def)
  have a1: "sp_attributes (spans (handleLLMStart demo_env [] ''q'' None (Some ?kw) None
               init_state) ! 0) GEN_AI_REQUEST_MAX_TOKENS = Some (JNum (Fin 256))"
    using e T by (simp add: rp g l0 obj_get_def)
  have a2: "promptTokens ?tu = JUndefined"
    using T by (simp add: obj_get_def js_or_def)
  have a3: "sp_attributes (spans (handleLLMEnd demo_env ?out ''r'' demo_llm) ! 0)
              GEN_AI_USAGE_INPUT_TOKENS = None"
  proof -
    from T have "\<not> suppress demo_env \<and> spanMapping demo_llm ''r'' = Some ?h
        \<and> hspan ?h < length (spans demo_llm)
        \<and> truthy (obj_get ?out ''llmOutput'')
        \<and> ?tu = js_or (js_get (obj_get ?out ''llmOutput'') ''token_usage'')
                     (js_get (obj_get ?out ''llmOutput'') ''usage'')
        \<and> truthy ?tu
        \<and> \<not> truthy (js_get ?tu ''prompt_tokens'') \<and> \<not> truthy (js_get ?tu ''input_token_count'')
        \<and> \<not> truthy (js_get ?tu ''input_tokens'') \<longrightarrow>
        sp_attributes (spans (handleLLMEnd demo_env ?out ''r'' demo_llm) ! hspan ?h)
            GEN_AI_USAGE_INPUT_TOKENS =
          (if present (js_get ?tu ''input_tokens'') then Some (js_get ?tu ''input_tokens'')
           else sp_attributes (spans demo_llm ! hspan ?h) GEN_AI_USAGE_INPUT_TOKENS)"
      by blast
    moreover have "\<not> truthy (js_get ?tu ''prompt_tokens'')"
      "\<not> truthy (js_get ?tu ''input_token_count'')" "\<not> truthy (js_get ?tu ''input_tokens'')"
      by (simp_all add: obj_get_def)
    ultimately have "sp_attributes (spans (handleLLMEnd demo_env ?out ''r'' demo_llm) ! hspan ?h)
            GEN_AI_USAGE_INPUT_TOKENS =
          (if present (js_get ?tu ''input_tokens'') then Some (js_get ?tu ''input_tokens'')
           else sp_attributes (spans demo_llm ! hspan ?h) GEN_AI_USAGE_INPUT_TOKENS)"
      using e demo_llm_r len t u tu by blast
    then show ?thesis
      by (simp add: obj_get_def g demo_llm_no_tokens)
  qed
  show ?thesis
    using e a1 a2 a3 demo_llm_r len by (simp add: rp obj_get_def)
qed

section \<open>Model identity\<close>

lemma set_if_present_apply:
  "set_if_present k v m k' = (if k' = k \<and> present v then Some v else m k')"
  by (simp add: set_if_present_def)

lemma js_get_falsy: "\<not> truthy v \<Longrightarrow> js_get v k = JUndefined"
  by (cases v) simp_all

lemma findModel_order:
  "findModel [''model_id'', ''base_model_id''] kw =
     (if obj_get kw ''model_id'' \<noteq> JUndefined then Some (obj_get kw ''model_id'')
      else if js_get (obj_get kw ''invocation_params'') ''model_id'' \<noteq> JUndefined
        then Some (js_get (obj_get kw ''invocation_params'') ''model_id'')
      else if obj_get kw ''base_model_id'' \<noteq> JUndefined then Some (obj_get kw ''base_model_id'')
      else if js_get (obj_get kw ''invocation_params'') ''base_model_id'' \<noteq> JUndefined
        then Some (js_get (obj_get kw ''invocation_params'') ''base_model_id'')
      else None)"
proof (cases "truthy (obj_get kw ''invocation_params'')")
  case True
  then show ?thesis by (simp add: findModel.simps js_or_def)
next
  case False
  then have "js_get (obj_get kw ''invocation_params'') k = JUndefined" for k
    by (rule js_get_falsy)
  moreover have "js_get (JObj []) k = JUndefined" for k
    by (simp add: obj_get_def)
  ultimately show ?thesis using False by (simp add: findModel.simps js_or_def)
qed

text \<open>
  C5, as stated, fails: with a direct \<open>base_model_id\<close> and a \<open>model_id\<close> under
  \<open>invocation_params\<close>, the order of the claim (direct fields first) resolves the direct
  \<open>base_model_id\<close>, while the handler resolves the nested \<open>model_id\<close> and emits it.
\<close>

theorem model_priority_counterexample:
  "spec_findModel [(''base_model_id'', JStr ''b''),
                   (''invocation_params'', JObj [(''model_id'', JStr ''a'')])] = Some (JStr ''b'')
   \<and> findModel [''model_id'', ''base_model_id'']
        [(''base_model_id'', JStr ''b''),
         (''invocation_params'', JObj [(''model_id'', JStr ''a'')])] = Some (JStr ''a'')
   \<and> sp_attributes (spans (handleLLMStart demo_env [] ''r'' None
          (Some [(''base_model_id'', JStr ''b''),
                 (''invocation_params'', JObj [(''model_id'', JStr ''a'')])]) None init_state) ! 0)
        GEN_AI_REQUEST_MODEL = Some (JStr ''a'')"
proof -
  let ?kw = "[(''base_model_id'', JStr ''b''),
              (''invocation_params'', JObj [(''model_id'', JStr ''a'')])]"
  have e: "\<not> suppress demo_env" by (simp add: demo_env_def)
  have f: "findModel [''model_id'', ''base_model_id''] ?kw = Some (JStr ''a'')"
    by (simp add: findModel_order obj_get_def)
  have r: "resolvedModel ?kw = JStr ''a''"
    by (simp add: resolvedModel_def f)
  have a: "sp_attributes (spans (handleLLMStart demo_env [] ''r'' None (Some ?kw) None
             init_state) ! 0) GEN_AI_REQUEST_MODEL = Some (JStr ''a'')"
    using handleLLMStart_attributes [OF e, of "[]" "''r''" None "Some ?kw" None init_state]
    by (simp add: init_state_def r set_if_present_apply present_def Let_def)
  have s: "spec_findModel ?kw = Some (JStr ''b'')"
    by (simp add: spec_findModel_def obj_get_def)
  from s f a show ?thesis by simp
qed

text \<open>
  C5, amended.  The model search goes through the keys in the order \<open>model_id\<close>,
  \<open>base_model_id\<close>, and for each key looks at the direct field first and then at the same
  key under \<open>invocation_params\<close>; the first value that is not \<open>undefined\<close> wins.  On a model
  start event the resolved model is emitted as \<open>gen_ai.request.model\<close> and
  \<open>gen_ai.response.model\<close> when it passes the attribute guard, and when no key matches the
  new span carries neither attribute (the \<open>unknown\<close> stored in the record is not emitted).
\<close>

theorem model_resolution_order:
  "findModel [''model_id'', ''base_model_id''] kw =
     (if obj_get kw ''model_id'' \<noteq> JUndefined then Some (obj_get kw ''model_id'')
      else if js_get (obj_get kw ''invocation_params'') ''model_id'' \<noteq> JUndefined
        then Some (js_get (obj_get kw ''invocation_params'') ''model_id'')
      else if obj_get kw ''base_model_id'' \<noteq> JUndefined then Some (obj_get kw ''base_model_id'')
      else if js_get (obj_get kw ''invocation_params'') ''base_model_id'' \<noteq> JUndefined
        then Some (js_get (obj_get kw ''invocation_params'') ''base_model_id'')
      else None)
   \<and> (\<not> suppress e \<longrightarrow>
        (\<forall>k \<in> {GEN_AI_REQUEST_MODEL, GEN_AI_RESPONSE_MODEL}.
           sp_attributes (spans (handleLLMStart e llm r p (Some kw) md s) ! length (spans s)) k =
             (case findModel [''model_id'', ''base_model_id''] kw of
                Some v \<Rightarrow> if present v then Some v else None
              | None \<Rightarrow> None)
         \<and> sp_attributes (spans (handleChatModelStart e llm r p (Some kw) md s) ! length (spans s)) k =
             (case findModel [''model_id'', ''base_model_id''] kw of
                Some v \<Rightarrow> if present v then Some v else None
              | None \<Rightarrow> None)))"
proof (intro conjI impI ballI)
  show "findModel [''model_id'', ''base_model_id''] kw =
     (if obj_get kw ''model_id'' \<noteq> JUndefined then Some (obj_get kw ''model_id'')
      else if js_get (obj_get kw ''invocation_params'') ''model_id'' \<noteq> JUndefined
        then Some (js_get (obj_get kw ''invocation_params'') ''model_id'')
      else if obj_get kw ''base_model_id'' \<noteq> JUndefined then Some (obj_get kw ''base_model_id'')
      else if js_get (obj_get kw ''invocation_params'') ''base_model_id'' \<noteq> JUndefined
        then Some (js_get (obj_get kw ''invocation_params'') ''base_model_id'')
      else None)"
    by (rule findModel_order)
next
  fix k assume e: "\<not> suppress e" and k: "k \<in> {GEN_AI_REQUEST_MODEL, GEN_AI_RESPONSE_MODEL}"
  have u: "\<not> present JUndefined" by (simp add: present_def)
  from k show "sp_attributes (spans (handleLLMStart e llm r p (Some kw) md s) ! length (spans s)) k =
             (case findModel [''model_id'', ''base_model_id''] kw of
                Some v \<Rightarrow> if present v then Some v else None
              | None \<Rightarrow> None)"
    by (auto simp: handleLLMStart_attributes [OF e] set_if_present_apply resolvedModel_def u
          split: option.splits)
  from k show "sp_attributes (spans (handleChatModelStart e llm r p (Some kw) md s) ! length (spans s)) k =
             (case findModel [''model_id'', ''base_model_id''] kw of
                Some v \<Rightarrow> if present v then Some v else None
              | None \<Rightarrow> None)"
    by (auto simp: handleChatModelStart_attributes [OF e] set_if_present_apply resolvedModel_def u
          split: option.splits)
qed

theorem model_resolution_order_witness:
  "\<not> suppress demo_env
   \<and> findModel [''model_id'', ''base_model_id'']
        [(''invocation_params'', JObj [(''model_id'', JStr ''a''), (''base_model_id'', JStr ''b'')])]
       = Some (JStr ''a'')
   \<and> sp_attributes (spans (handleChatModelStart demo_env [] ''r'' None
          (Some [(''invocation_params'',
                  JObj [(''model_id'', JStr ''a''), (''base_model_id'', JStr ''b'')])])
          None init_state) ! 0) GEN_AI_REQUEST_MODEL = Some (JStr ''a'')
   \<and> findModel [''model_id'', ''base_model_id''] [(''temperature'', JNum (Fin 1))] = None
   \<and> sp_attributes (spans (handleLLMStart demo_env [] ''r'' None
          (Some [(''temperature'', JNum (Fin 1))]) None init_state) ! 0) GEN_AI_REQUEST_MODEL = None
   \<and> sp_attributes (spans (handleLLMStart demo_env [] ''r'' None
          (Some [(''temperature'', JNum (Fin 1))]) None init_state) ! 0) GEN_AI_RESPONSE_MODEL = None"
proof -
  let ?k1 = "[(''invocation_params'', JObj [(''model_id'', JStr ''a''), (''base_model_id'', JStr ''b'')])]"
  let ?k2 = "[(''temperature'', JNum (Fin 1))]"
  have e: "\<not> suppress demo_env" by (simp add: demo_env_def)
  have l0: "length (spans init_state) = 0" by (simp add: init_state_def)
  note T1 = model_resolution_order [where kw = ?k1 and e = demo_env and llm = "[]"
      and r = "''r''" and p = None and md = None and s = init_state]
  note T2 = model_resolution_order [where kw = ?k2 and e = demo_env and llm = "[]"
      and r = "''r''" and p = None and md = None and s = init_state]
  have f1: "findModel [''model_id'', ''base_model_id''] ?k1 = Some (JStr ''a'')"
    using T1 by (simp add: obj_get_def)
  have f2: "findModel [''model_id'', ''base_model_id''] ?k2 = None"
    using T2 by (simp add: obj_get_def)
  have g: "present (JStr ''a'')" by (simp add: present_def)
  from T1 e have "\<forall>k \<in> {GEN_AI_REQUEST_MODEL, GEN_AI_RESPONSE_MODEL}.
           sp_attributes (spans (handleLLMStart demo_env [] ''r'' None (Some ?k1) None init_state) ! length (spans init_state)) k =
             (case findModel [''model_id'', ''base_model_id''] ?k1 of
                Some v \<Rightarrow> if present v then Some v else None
              | None \<Rightarrow> None)
         \<and> sp_attributes (spans (handleChatModelStart demo_env [] ''r'' None (Some ?k1) None init_state) ! length (spans init_state)) k =
             (case findModel [''model_id'', ''base_model_id''] ?k1 of
                Some v \<Rightarrow> if present v then Some v else None
              | None \<Rightarrow> None)"
    by blast
  then have a1: "sp_attributes (spans (handleChatModelStart demo_env [] ''r'' None (Some ?k1) None
                   init_state) ! 0) GEN_AI_REQUEST_MODEL = Some (JStr ''a'')"
    by (simp add: f1 g l0)
  from T2 e have "\<forall>k \<in> {GEN_AI_REQUEST_MODEL, GEN_AI_RESPONSE_MODEL}.
           sp_attributes (spans (handleLLMStart demo_env [] ''r'' None (Some ?k2) None init_state) ! length (spans init_state)) k =
             (case findModel [''model_id'', ''base_model_id''] ?k2 of
                Some v \<Rightarrow> if present v then Some v else None
              | None \<Rightarrow> None)
         \<and> sp_attributes (spans (handleChatModelStart demo_env [] ''r'' None (Some ?k2) None init_state) ! length (spans init_state)) k =
             (case findModel [''model_id'', ''base_model_id''] ?k2 of
                Some v \<Rightarrow> if present v then Some v else None
              | None \<Rightarrow> None)"
    by blast
  then have a2: "sp_attributes (spans (handleLLMStart demo_env [] ''r'' None (Some ?k2) None
                   init_state) ! 0) GEN_AI_REQUEST_MODEL = None"
    and a3: "sp_attributes (spans (handleLLMStart demo_env [] ''r'' None (Some ?k2) None
                   init_state) ! 0) GEN_AI_RESPONSE_MODEL = None"
    by (simp_all add: f2 l0)
  from e f1 a1 f2 a2 a3 show ?thesis by blast
qed

section \<open>Metadata sanitization\<close>















section \<open>Parent and child\<close>

lemma demo_parent_p:
  "spanMapping demo_parent ''p'' = Some \<lparr>hspan = 0, children = [], requestModel = JStr ''unknown''\<rparr>"
  by code_simp

lemma demo_parent_length: "length (spans demo_parent) = 1"
  by code_simp


text \<open>
  C4, as stated, fails at two inputs.  A start event whose \<open>parentRunId\<close> is the empty
  string, while a live record for the run id \<open>''\<close> exists, starts a span without parent
  and appends nothing: the test \<open>parentRunId && ...\<close> takes the empty string for an
  absent parent.  And a start event whose \<open>parentRunId\<close> is its own \<open>runId\<close>, with no live
  record for it, starts a span without parent and then appends the run id to the children
  of the record it has just stored, because the test is made again after the record is
  stored.
\<close>

theorem parent_link_counterexample:
  "spanMapping (handleChainStart demo_env [(''name'', JStr ''c'')] (JObj []) [] None None init_state) []
     = Some \<lparr>hspan = 0, children = [], requestModel = JStr ''unknown''\<rparr>
   \<and> sp_parent (spans (handleToolStart demo_env [(''name'', JStr ''t'')] (JStr ''in'') ''c'' (Some []) None
        (handleChainStart demo_env [(''name'', JStr ''c'')] (JObj []) [] None None init_state)) ! 1)
     = None
   \<and> spanMapping (handleToolStart demo_env [(''name'', JStr ''t'')] (JStr ''in'') ''c'' (Some []) None
        (handleChainStart demo_env [(''name'', JStr ''c'')] (JObj []) [] None None init_state)) []
     = Some \<lparr>hspan = 0, children = [], requestModel = JStr ''unknown''\<rparr>
   \<and> spanMapping init_state ''r'' = None
   \<and> spanMapping (handleChainStart demo_env [(''name'', JStr ''c'')] (JObj []) ''r'' (Some ''r'') None
        init_state) ''r''
     = Some \<lparr>hspan = 0, children = [''r''], requestModel = JStr ''unknown''\<rparr>"
  by code_simp

text \<open>
  C4, amended.  For a start event of the run \<open>r\<close> that carries a non-empty \<open>parentRunId\<close>
  \<open>p\<close> other than \<open>r\<close> (instrumentation not suppressed): the handler returns, with one
  more span; if a record for \<open>p\<close> exists, the new span is started with the span of that
  record as parent, \<open>r\<close> is appended to the children of that record, and no other record
  than those of \<open>r\<close> and \<open>p\<close> changes; if none exists, the new span is started without
  parent and no record other than that of \<open>r\<close> changes.  In both cases the record of
  \<open>r\<close> holds the new span and an empty children list.
\<close>

theorem start_event_parent_link:
  assumes "\<not> suppress e" and "starting ev = Some (r, Some p)" and "p \<noteq> []" and "p \<noteq> r"
  shows "\<exists>s'. handle e ev s = Inr s'
           \<and> length (spans s') = Suc (length (spans s))
           \<and> (\<forall>i < length (spans s). spans s' ! i = spans s ! i)
           \<and> (case spanMapping s p of
                 Some ph \<Rightarrow>
                   sp_parent (spans s' ! length (spans s)) = Some (hspan ph)
                   \<and> spanMapping s' p = Some (ph\<lparr>children := children ph @ [r]\<rparr>)
                   \<and> (\<forall>q. q \<noteq> r \<and> q \<noteq> p \<longrightarrow> spanMapping s' q = spanMapping s q)
               | None \<Rightarrow>
                   sp_parent (spans s' ! length (spans s)) = None
                   \<and> (\<forall>q. q \<noteq> r \<longrightarrow> spanMapping s' q = spanMapping s q))
           \<and> map_option hspan (spanMapping s' r) = Some (length (spans s))
           \<and> map_option children (spanMapping s' r) = Some []"
proof -
  from started_handle [OF assms(1,2)] obtain s' where
    h: "handle e ev s = Inr s'" and st: "started r (Some p) s s'"
    by blast
  show ?thesis
  proof (cases "spanMapping s p")
    case None
    then have lp: "liveParent (Some p) s = None"
      by (simp add: liveParent_def)
    with st None assms(3,4) h show ?thesis
      by (auto simp: started_def parentSpan_def)
  next
    case (Some ph)
    then have lp: "liveParent (Some p) s = Some p"
      using assms(3) by (simp add: liveParent_def)
    with st Some assms(3,4) h show ?thesis
      by (auto simp: started_def parentSpan_def)
  qed
qed


theorem start_event_parent_link_witness:
  "\<not> suppress demo_env
   \<and> starting (ToolStart [(''name'', JStr ''t'')] (JStr ''in'') ''c'' (Some ''p'') None)
       = Some (''c'', Some ''p'')
   \<and> ''p'' \<noteq> [] \<and> ''p'' \<noteq> ''c''
   \<and> sp_parent (spans (handleToolStart demo_env [(''name'', JStr ''t'')] (JStr ''in'') ''c''
                          (Some ''p'') None demo_parent) ! 1) = Some 0
   \<and> spanMapping (handleToolStart demo_env [(''name'', JStr ''t'')] (JStr ''in'') ''c''
                          (Some ''p'') None demo_parent) ''p''
       = Some \<lparr>hspan = 0, children = [''c''], requestModel = JStr ''unknown''\<rparr>
   \<and> sp_parent (spans (handleToolStart demo_env [(''name'', JStr ''t'')] (JStr ''in'') ''c''
                          (Some ''zz'') None init_state) ! 0) = None
   \<and> map_option children (spanMapping (handleToolStart demo_env [(''name'', JStr ''t'')]
                          (JStr ''in'') ''c'' (Some ''zz'') None init_state) ''c'') = Some []"
proof -
  let ?t = "[(''name'', JStr ''t'')]"
  have e: "\<not> suppress demo_env" by (simp add: demo_env_def)
  have st1: "starting (ToolStart ?t (JStr ''in'') ''c'' (Some ''p'') None) = Some (''c'', Some ''p'')"
    and st2: "starting (ToolStart ?t (JStr ''in'') ''c'' (Some ''zz'') None) = Some (''c'', Some ''zz'')"
    by simp_all
  have n1: "''p'' \<noteq> []" "''p'' \<noteq> ''c''" and n2: "''zz'' \<noteq> []" "''zz'' \<noteq> ''c''"
    by simp_all
  have none: "spanMapping init_state ''zz'' = None" and l0: "length (spans init_state) = 0"
    by (simp_all add: init_state_def)
  from start_event_parent_link [OF e st1 n1, of demo_parent]
  have a: "sp_parent (spans (handleToolStart demo_env ?t (JStr ''in'') ''c'' (Some ''p'') None
                        demo_parent) ! 1) = Some 0
         \<and> spanMapping (handleToolStart demo_env ?t (JStr ''in'') ''c'' (Some ''p'') None
                        demo_parent) ''p''
             = Some \<lparr>hspan = 0, children = [''c''], requestModel = JStr ''unknown''\<rparr>"
    by (simp add: demo_parent_p demo_parent_length)
  from start_event_parent_link [OF e st2 n2, of init_state]
  have b: "sp_parent (spans (handleToolStart demo_env ?t (JStr ''in'') ''c'' (Some ''zz'') None
                        init_state) ! 0) = None
         \<and> map_option children (spanMapping (handleToolStart demo_env ?t (JStr ''in'') ''c''
                        (Some ''zz'') None init_state) ''c'') = Some []"
    by (simp add: none l0)
  from e st1 n1 a b show ?thesis by blast
qed

section \<open>Suppression and the agent handlers\<close>

lemma suppressed_noop:
  assumes "suppress e"
  shows "handleChatModelStart e llm r p ep md s = s"
    and "handleLLMStart e llm r p ep md s = s"
    and "handleLLMEnd e out r s = s"
    and "handleChainStart e chain inputs r p md s = s"
    and "handleChainEnd e outputs r s = s"
    and "handleToolStart e tool input r p md s = s"
    and "handleToolEnd e output r s = s"
    and "handleError e err r s = Inr s"
  using assms
  by (simp_all add: handleChatModelStart_def handleLLMStart_def handleLLMEnd_def
        handleChainStart_def handleChainEnd_def handleToolStart_def handleToolEnd_def
        handleError_def)

lemma suppressed_handle_noop:
  assumes "suppress e" and "\<forall>a r. ev \<noteq> AgentAction a r \<and> ev \<noteq> AgentEnd a r"
  shows "handle e ev s = Inr s"
  using assms
  by (cases ev)
     (simp_all add: suppressed_noop handleLLMError_def handleChainError_def handleToolError_def)

lemma handleAgentAction_frame [simp]:
  "spanMapping (handleAgentAction e a r s) = spanMapping s"
  "assoc_log (handleAgentAction e a r s) = assoc_log s"
  "length (spans (handleAgentAction e a r s)) = length (spans s)"
  "sp_status (spans (handleAgentAction e a r s) ! j) = sp_status (spans s ! j)"
  "sp_end_calls (spans (handleAgentAction e a r s) ! j) = sp_end_calls (spans s ! j)"
  by (simp_all add: handleAgentAction_def Let_def split: option.splits)

lemma handleAgentEnd_frame [simp]:
  "spanMapping (handleAgentEnd e a r s) = spanMapping s"
  "assoc_log (handleAgentEnd e a r s) = assoc_log s"
  "length (spans (handleAgentEnd e a r s)) = length (spans s)"
  "sp_status (spans (handleAgentEnd e a r s) ! j) = sp_status (spans s ! j)"
  "sp_end_calls (spans (handleAgentEnd e a r s) ! j) = sp_end_calls (spans s ! j)"
  by (simp_all add: handleAgentEnd_def Let_def split: option.splits)

section \<open>The error path\<close>

lemma started_status:
  assumes "started r p s s'"
  shows "(\<forall>i < length (spans s). sp_status (spans s' ! i) = sp_status (spans s ! i))
       \<and> (\<forall>i. length (spans s) \<le> i \<and> i < length (spans s') \<longrightarrow> sp_status (spans s' ! i) = UNSET)"
proof -
  from assms have l: "length (spans s') = Suc (length (spans s))"
    and old: "\<forall>i < length (spans s). spans s' ! i = spans s ! i"
    and new: "sp_status (spans s' ! length (spans s)) = UNSET"
    by (simp_all add: started_def)
  have "i = length (spans s)" if "length (spans s) \<le> i" "i < length (spans s')" for i
    using that l by simp
  with old new show ?thesis by auto
qed

lemma status_only_by_error:
  assumes "\<not> is_error_event ev" and "handle e ev s = Inr s'"
  shows "(\<forall>i < length (spans s). sp_status (spans s' ! i) = sp_status (spans s ! i))
       \<and> (\<forall>i. length (spans s) \<le> i \<and> i < length (spans s') \<longrightarrow> sp_status (spans s' ! i) = UNSET)"
proof (cases "starting ev")
  case None
  with assms show ?thesis
    by (cases ev) auto
next
  case (Some rp)
  obtain r p where rp: "rp = (r, p)" by (cases rp)
  show ?thesis
  proof (cases "suppress e")
    case True
    with Some assms(2) have "s' = s"
      by (cases ev) (simp_all add: suppressed_noop)
    then show ?thesis by auto
  next
    case False
    from started_handle [OF False Some [unfolded rp], of s] assms(2)
    have "started r p s s'" by auto
    then show ?thesis by (rule started_status)
  qed
qed

lemma handleError_status:
  assumes "\<not> suppress e" and "spanMapping s r = Some h" and "hspan h < length (spans s)"
    and "err \<noteq> JUndefined" and "err \<noteq> JNull"
  shows "\<exists>s'. handleError e err r s = Inr s'
           \<and> sp_status (spans s' ! hspan h) = ERROR (js_get err ''message'')
           \<and> sp_exceptions (spans s' ! hspan h) = sp_exceptions (spans s ! hspan h) @ [err]
           \<and> (\<forall>i. i \<noteq> hspan h \<longrightarrow> sp_status (spans s' ! i) = sp_status (spans s ! i))"
  using assms
  by (simp add: handleError_live span_setStatus_error_status span_recordException_exceptions)


lemma span_setStatus_error_log:
  "sp_calls (spans (span_setStatus_error i m s) ! j) =
     (if j = i \<and> i < length (spans s) then sp_calls (spans s ! j) @ [SetStatusError m]
      else sp_calls (spans s ! j))"
  by (simp add: span_setStatus_error_def upd_span_nth)

lemma span_recordException_log:
  "sp_calls (spans (span_recordException i err s) ! j) =
     (if j = i \<and> i < length (spans s) then sp_calls (spans s ! j) @ [RecordException err]
      else sp_calls (spans s ! j))"
  by (simp add: span_recordException_def upd_span_nth)

lemma handleError_log:
  assumes "\<not> suppress e" and "spanMapping s r = Some h" and "hspan h < length (spans s)"
    and "handleError e err r s = Inr s'"
  shows "sp_calls (spans s' ! hspan h) =
           sp_calls (spans s ! hspan h)
           @ [SetStatusError (js_get err ''message''), RecordException err]
           @ replicate (Suc (length (filter (\<lambda>c. map_option hspan (spanMapping s c) = Some (hspan h))
                                        (children h)))) End"
  using assms
  by (auto simp: handleError_live endSpan_log span_setStatus_error_log span_recordException_log
        split: if_splits)

text \<open>
  C8, as stated, fails for an error value that is \<open>null\<close> or \<open>undefined\<close>, which the
  public error handlers (\<open>err: any\<close>) accept: for a run with a live record the handler
  throws a TypeError at \<open>error.message\<close>, before the status is set; nothing is recorded
  and the span is not ended.
\<close>

theorem null_error_throws_counterexample:
  "\<not> suppress demo_env
   \<and> spanMapping demo_tree ''p'' =
       Some \<lparr>hspan = 0, children = [''c1'', ''c2''], requestModel = JStr ''unknown''\<rparr>
   \<and> handleChainError demo_env JUndefined ''p'' demo_tree = Inl TypeError
   \<and> handleLLMError demo_env JNull ''p'' demo_tree = Inl TypeError
   \<and> handleToolError demo_env JNull ''p'' demo_tree = Inl TypeError"
proof -
  have e: "\<not> suppress demo_env" by (simp add: demo_env_def)
  show ?thesis
    using e demo_tree_facts(1)
    by (simp add: handleChainError_def handleLLMError_def handleToolError_def
          handleError_live [OF e demo_tree_facts(1)])
qed

text \<open>
  C8, amended.  An error event that carries an error value other than \<open>null\<close> and
  \<open>undefined\<close>, for a run with a live record (instrumentation not suppressed), returns
  normally; on the run's span it calls, in this order, \<open>setStatus\<close> with the error code and
  the error's \<open>message\<close>, \<open>recordException\<close> with the error, and then \<open>end()\<close>; it also calls
  \<open>end()\<close> on the span of every listed child that has a record.  No event other than an
  error event changes the status of a span, and a span starts with the status unset.  An
  end or error event for a run id without a record returns the state unchanged, whatever
  the error value is.
\<close>

theorem error_event_closes_with_error_status:
  "(\<not> suppress e \<and> spanMapping s r = Some h \<and> hspan h < length (spans s)
      \<and> err \<noteq> JUndefined \<and> err \<noteq> JNull \<longrightarrow>
      (\<exists>s'. handleLLMError e err r s = Inr s' \<and> handleChainError e err r s = Inr s'
            \<and> handleToolError e err r s = Inr s'
            \<and> sp_status (spans s' ! hspan h) = ERROR (js_get err ''message'')
            \<and> sp_exceptions (spans s' ! hspan h) = sp_exceptions (spans s ! hspan h) @ [err]
            \<and> sp_calls (spans s' ! hspan h) =
                sp_calls (spans s ! hspan h)
                @ [SetStatusError (js_get err ''message''), RecordException err]
                @ replicate (Suc (length (filter
                     (\<lambda>c. map_option hspan (spanMapping s c) = Some (hspan h)) (children h)))) End
            \<and> (\<forall>i < length (spans s).
                  sp_end_calls (spans s' ! i) =
                    sp_end_calls (spans s ! i)
                    + length (filter (\<lambda>c. map_option hspan (spanMapping s c) = Some i) (children h))
                    + (if i = hspan h then 1 else 0))))
   \<and> (\<not> is_error_event ev \<and> handle e ev s = Inr s1 \<longrightarrow>
        (\<forall>i < length (spans s). sp_status (spans s1 ! i) = sp_status (spans s ! i))
        \<and> (\<forall>i. length (spans s) \<le> i \<and> i < length (spans s1) \<longrightarrow>
               sp_status (spans s1 ! i) = UNSET))
   \<and> (closing_runId ev = Some r \<and> spanMapping s r = None \<longrightarrow> handle e ev s = Inr s)"
proof (intro conjI impI)
  assume a: "\<not> suppress e \<and> spanMapping s r = Some h \<and> hspan h < length (spans s)
      \<and> err \<noteq> JUndefined \<and> err \<noteq> JNull"
  then have e: "\<not> suppress e" and h: "spanMapping s r = Some h"
    and l: "hspan h < length (spans s)" and n: "err \<noteq> JUndefined" "err \<noteq> JNull"
    by blast+
  from handleError_status [OF e h l n] obtain s' where
    r: "handleError e err r s = Inr s'"
    and st: "sp_status (spans s' ! hspan h) = ERROR (js_get err ''message'')"
    and ex: "sp_exceptions (spans s' ! hspan h) = sp_exceptions (spans s ! hspan h) @ [err]"
    by blast
  have calls: "\<forall>i < length (spans s).
                  sp_end_calls (spans s' ! i) =
                    sp_end_calls (spans s ! i)
                    + length (filter (\<lambda>c. map_option hspan (spanMapping s c) = Some i) (children h))
                    + (if i = hspan h then 1 else 0)"
    using handleError_calls [OF e h _ r] by blast
  note lg = handleError_log [OF e h l r]
  from r st ex calls lg
  show "\<exists>s'. handleLLMError e err r s = Inr s' \<and> handleChainError e err r s = Inr s'
            \<and> handleToolError e err r s = Inr s'
            \<and> sp_status (spans s' ! hspan h) = ERROR (js_get err ''message'')
            \<and> sp_exceptions (spans s' ! hspan h) = sp_exceptions (spans s ! hspan h) @ [err]
            \<and> sp_calls (spans s' ! hspan h) =
                sp_calls (spans s ! hspan h)
                @ [SetStatusError (js_get err ''message''), RecordException err]
                @ replicate (Suc (length (filter
                     (\<lambda>c. map_option hspan (spanMapping s c) = Some (hspan h)) (children h)))) End
            \<and> (\<forall>i < length (spans s).
                  sp_end_calls (spans s' ! i) =
                    sp_end_calls (spans s ! i)
                    + length (filter (\<lambda>c. map_option hspan (spanMapping s c) = Some i) (children h))
                    + (if i = hspan h then 1 else 0))"
    by (simp add: handleLLMError_def handleChainError_def handleToolError_def)
next
  assume "\<not> is_error_event ev \<and> handle e ev s = Inr s1"
  then have "(\<forall>i < length (spans s). sp_status (spans s1 ! i) = sp_status (spans s ! i))
       \<and> (\<forall>i. length (spans s) \<le> i \<and> i < length (spans s1) \<longrightarrow> sp_status (spans s1 ! i) = UNSET)"
    using status_only_by_error [of ev e s s1] by blast
  then show "\<forall>i < length (spans s). sp_status (spans s1 ! i) = sp_status (spans s ! i)"
    and "\<forall>i. length (spans s) \<le> i \<and> i < length (spans s1) \<longrightarrow> sp_status (spans s1 ! i) = UNSET"
    by blast+
next
  assume "closing_runId ev = Some r \<and> spanMapping s r = None"
  then show "handle e ev s = Inr s"
    using closing_noop [of ev r e s] by blast
qed

theorem error_event_closes_with_error_status_witness:
  "\<not> suppress demo_env
   \<and> spanMapping demo_tree ''p'' =
       Some \<lparr>hspan = 0, children = [''c1'', ''c2''], requestModel = JStr ''unknown''\<rparr>
   \<and> (0::nat) < length (spans demo_tree)
   \<and> (\<exists>s'. handleChainError demo_env (JObj [(''message'', JStr ''boom'')]) ''p'' demo_tree = Inr s'
          \<and> sp_status (spans s' ! 0) = ERROR (JStr ''boom'')
          \<and> sp_exceptions (spans s' ! 0) = [JObj [(''message'', JStr ''boom'')]]
          \<and> sp_calls (spans s' ! 0) =
              sp_calls (spans demo_tree ! 0)
              @ [SetStatusError (JStr ''boom''), RecordException (JObj [(''message'', JStr ''boom'')]), End]
          \<and> sp_end_calls (spans s' ! 0) = 1
          \<and> sp_end_calls (spans s' ! 2) = 1
          \<and> sp_end_calls (spans s' ! 3) = 0)
   \<and> \<not> is_error_event (ChainEnd (JStr ''out'') ''p'')
   \<and> sp_status (spans (handleChainEnd demo_env (JStr ''out'') ''p'' demo_tree) ! 0) = UNSET
   \<and> closing_runId (LLMError JUndefined ''nobody'') = Some ''nobody''
   \<and> spanMapping demo_tree ''nobody'' = None
   \<and> handle demo_env (LLMError JUndefined ''nobody'') demo_tree = Inr demo_tree"
proof -
  let ?h = "\<lparr>hspan = 0, children = [''c1'', ''c2''], requestModel = JStr ''unknown''\<rparr>"
  let ?err = "JObj [(''message'', JStr ''boom'')]"
  have e: "\<not> suppress demo_env" by (simp add: demo_env_def)
  have len: "hspan ?h < length (spans demo_tree)" by (simp add: demo_tree_facts)
  note T = error_event_closes_with_error_status [where e = demo_env and s = demo_tree]
  from T [where r = "''p''" and h = ?h and err = ?err] e demo_tree_facts(1) len
  obtain s' where r: "handleChainError demo_env ?err ''p'' demo_tree = Inr s'"
    and st: "sp_status (spans s' ! hspan ?h) = ERROR (js_get ?err ''message'')"
    and ex: "sp_exceptions (spans s' ! hspan ?h) = sp_exceptions (spans demo_tree ! hspan ?h) @ [?err]"
    and lg: "sp_calls (spans s' ! hspan ?h) =
                sp_calls (spans demo_tree ! hspan ?h)
                @ [SetStatusError (js_get ?err ''message''), RecordException ?err]
                @ replicate (Suc (length (filter
                     (\<lambda>c. map_option hspan (spanMapping demo_tree c) = Some (hspan ?h))
                     (children ?h)))) End"
    and calls: "\<forall>i < length (spans demo_tree).
                  sp_end_calls (spans s' ! i) =
                    sp_end_calls (spans demo_tree ! i)
                    + length (filter (\<lambda>c. map_option hspan (spanMapping demo_tree c) = Some i)
                                (children ?h))
                    + (if i = hspan ?h then 1 else 0)"
    by blast
  have c0: "sp_end_calls (spans s' ! 0) = 1" and c2: "sp_end_calls (spans s' ! 2) = 1"
    and c3: "sp_end_calls (spans s' ! 3) = 0"
    using calls by (simp_all add: demo_tree_facts)
  have a: "\<exists>s'. handleChainError demo_env ?err ''p'' demo_tree = Inr s'
          \<and> sp_status (spans s' ! 0) = ERROR (JStr ''boom'')
          \<and> sp_exceptions (spans s' ! 0) = [?err]
          \<and> sp_calls (spans s' ! 0) =
              sp_calls (spans demo_tree ! 0) @ [SetStatusError (JStr ''boom''), RecordException ?err, End]
          \<and> sp_end_calls (spans s' ! 0) = 1
          \<and> sp_end_calls (spans s' ! 2) = 1
          \<and> sp_end_calls (spans s' ! 3) = 0"
    using r st ex lg c0 c2 c3 by (simp add: demo_tree_facts obj_get_def)
  have ne: "\<not> is_error_event (ChainEnd (JStr ''out'') ''p'')" by simp
  have hd: "handle demo_env (ChainEnd (JStr ''out'') ''p'') demo_tree
              = Inr (handleChainEnd demo_env (JStr ''out'') ''p'' demo_tree)" by simp
  from T [where ev = "ChainEnd (JStr ''out'') ''p''"
      and ?s1.0 = "handleChainEnd demo_env (JStr ''out'') ''p'' demo_tree"] ne hd
  have "\<forall>i < length (spans demo_tree).
          sp_status (spans (handleChainEnd demo_env (JStr ''out'') ''p'' demo_tree) ! i)
            = sp_status (spans demo_tree ! i)"
    by blast
  then have b: "sp_status (spans (handleChainEnd demo_env (JStr ''out'') ''p'' demo_tree) ! 0) = UNSET"
    by (simp add: demo_tree_facts)
  have cl: "closing_runId (LLMError JUndefined ''nobody'') = Some ''nobody''" by simp
  from T [where ev = "LLMError JUndefined ''nobody''" and r = "''nobody''"] cl demo_tree_facts(11)
  have c: "handle demo_env (LLMError JUndefined ''nobody'') demo_tree = Inr demo_tree"
    by blast
  from e demo_tree_facts(1) len a ne b cl demo_tree_facts(11) c show ?thesis
    by simp
qed

section \<open>Suppression\<close>




section \<open>Closing a run\<close>










end
